theory Spec2Isabelle
  imports Complex_Main "HOL-Library.Sublist"
begin

section \<open>The sampling engine of \<open>macos_performance_monitor.py\<close>\<close>

text \<open>
  The class \<open>MacOSPerformanceMonitor\<close> is embedded as a record of its mutable attributes.
  Every method takes the values the operating system hands it in that call (counters, the
  clock, the outcome of the probe subprocess, the process table) as arguments, and returns
  its result together with the list of effects it performs, in program order: assignments
  to attributes of \<open>self\<close> and calls that act on the outside world. The state after a
  call is the state before it with the assignments applied in order.

  Python floats are modelled as exact rationals (\<open>rat\<close>) and Python ints as \<open>int\<close>.
\<close>

subsection \<open>Python values\<close>

text \<open>The exceptions that the modelled methods name in \<open>except\<close> clauses, and \<open>OSError\<close>
  and \<open>AttributeError\<close> for failures that no clause of theirs catches.\<close>

datatype exn =
    PermissionError
  | FileNotFoundError
  | OSError
  | TimeoutExpired
  | CalledProcessError
  | NoSuchProcess
  | AccessDenied
  | ZombieProcess
  | IndexError
  | ValueError
  | AttributeError

text \<open>\<open>round(x, ndigits)\<close>: to the nearest multiple of \<open>10 ^ -ndigits\<close>, halves to even.\<close>

definition round_half_even :: "rat \<Rightarrow> int" where
  "round_half_even x =
     (let f = \<lfloor>x\<rfloor>; d = x - of_int f
      in if d < 1 / 2 then f
         else if 1 / 2 < d then f + 1
         else if even f then f else f + 1)"

definition py_round :: "rat \<Rightarrow> nat \<Rightarrow> rat" where
  "py_round x ndigits = of_int (round_half_even (x * 10 ^ ndigits)) / 10 ^ ndigits"

text \<open>\<open>xs[:num]\<close>: a negative \<open>num\<close> counts from the end.\<close>

definition slice_to :: "int \<Rightarrow> 'a list \<Rightarrow> 'a list" where
  "slice_to num xs =
     (if 0 \<le> num then take (nat num) xs else take (length xs - nat (- num)) xs)"

text \<open>\<open>xs.sort(key=key, reverse=True)\<close>: descending by key; the sort is stable, also when
  reversed, so elements with equal keys keep their order.\<close>

definition sort_reverse :: "('a \<Rightarrow> rat) \<Rightarrow> 'a list \<Rightarrow> 'a list" where
  "sort_reverse key xs = sort_key (\<lambda>x. - key x) xs"

subsection \<open>\<open>collections.deque(maxlen=k)\<close>\<close>

record 'a deque =
  maxlen :: nat
  items :: "'a list"

definition deque_new :: "nat \<Rightarrow> 'a deque" where
  "deque_new k = \<lparr>maxlen = k, items = []\<rparr>"

text \<open>\<open>d.append(v)\<close>: add on the right, then drop from the left if over \<open>maxlen\<close>.\<close>

definition deque_append :: "'a \<Rightarrow> 'a deque \<Rightarrow> 'a deque" where
  "deque_append v d =
     (let ys = items d @ [v]
      in d\<lparr>items := (if maxlen d < length ys then tl ys else ys)\<rparr>)"

fun deque_extend :: "'a list \<Rightarrow> 'a deque \<Rightarrow> 'a deque" where
  "deque_extend [] d = d"
| "deque_extend (v # vs) d = deque_extend vs (deque_append v d)"

subsection \<open>Strings\<close>

text \<open>\<open>s.split(c)\<close> for a separator of one character.\<close>

fun split_on :: "char \<Rightarrow> string \<Rightarrow> string list" where
  "split_on c [] = [[]]"
| "split_on c (x # xs) =
     (if x = c then [] # split_on c xs
      else (case split_on c xs of [] \<Rightarrow> [[x]] | w # ws \<Rightarrow> (x # w) # ws))"

text \<open>\<open>sub in s\<close>.\<close>

fun contains :: "string \<Rightarrow> string \<Rightarrow> bool" where
  "contains sub [] = (sub = [])"
| "contains sub (c # cs) = (prefix sub (c # cs) \<or> contains sub cs)"

text \<open>\<open>s.strip()\<close>, for the ASCII whitespace characters.\<close>

definition is_space :: "char \<Rightarrow> bool" where
  "is_space c = (c \<in> set [CHR '' '', CHR 0x09, CHR 0x0A, CHR 0x0B, CHR 0x0C, CHR 0x0D,
                            CHR 0x1C, CHR 0x1D, CHR 0x1E, CHR 0x1F])"

definition strip :: "string \<Rightarrow> string" where
  "strip s = rev (dropWhile is_space (rev (dropWhile is_space s)))"

text \<open>\<open>s.replace(' C', '')\<close>: every occurrence, left to right.\<close>

fun replace_space_C :: "string \<Rightarrow> string" where
  "replace_space_C (a # b # cs) =
     (if a = CHR '' '' \<and> b = CHR ''C'' then replace_space_C cs
      else a # replace_space_C (b # cs))"
| "replace_space_C cs = cs"

subsection \<open>Readings of the operating system\<close>

text \<open>The fields of \<open>psutil\<close>'s tuples that the methods read.\<close>

record net_io =
  bytes_sent :: int
  bytes_recv :: int
  packets_sent :: int
  packets_recv :: int

record disk_io =
  read_count :: int
  write_count :: int
  read_bytes :: int
  write_bytes :: int

record partition =
  device :: string
  mountpoint :: string
  fstype :: string

record usage =
  total :: int
  used :: int
  free :: int
  percent :: rat

record battery =
  battery_percent :: rat
  secsleft :: int
  power_plugged :: "bool option"

definition POWER_TIME_UNLIMITED :: int where
  "POWER_TIME_UNLIMITED = - 2"

text \<open>What \<open>subprocess.run\<close> returns when it returns.\<close>

record completed_process =
  returncode :: int
  stdout :: string

text \<open>\<open>proc.info\<close> of a process yielded by \<open>psutil.process_iter\<close>; an attribute that could
  not be read is \<open>None\<close>.\<close>

record proc_info =
  info_pid :: int
  info_name :: "string option"
  info_cpu_percent :: "rat option"
  info_memory_percent :: "rat option"
  info_username :: "string option"

subsection \<open>The monitor and its effects\<close>

text \<open>The dictionary \<open>temps\<close>, whose only key is \<open>cpu_temp_c\<close>; the empty dictionary is
  \<open>None\<close> of \<open>temps option\<close>, which is what \<open>temps if temps else None\<close> makes of it.\<close>

record temps =
  cpu_temp_c :: rat

record monitor =
  prev_net_io :: net_io
  prev_disk_io :: "disk_io option"
  prev_sample_ts :: rat
  last_temp :: "temps option"
  last_temp_ts :: rat
  enable_temps :: bool
  temp_refresh_seconds :: rat
  proc_prime_ts :: rat
  history_size :: nat
  cpu_history :: "rat deque"
  memory_history :: "rat deque"
  network_history :: "rat deque"

text \<open>\<open>__init__\<close>, given the clock and the counters it reads.\<close>

definition init :: "rat \<Rightarrow> net_io \<Rightarrow> disk_io option \<Rightarrow> monitor" where
  "init start_time network_io_start disk_io_start =
     \<lparr>prev_net_io = network_io_start,
      prev_disk_io = disk_io_start,
      prev_sample_ts = start_time,
      last_temp = None,
      last_temp_ts = 0,
      enable_temps = False,
      temp_refresh_seconds = 5,
      proc_prime_ts = 0,
      history_size = 20,
      cpu_history = deque_new 20,
      memory_history = deque_new 20,
      network_history = deque_new 20\<rparr>"

text \<open>An effect is an assignment to an attribute, an append to a history, or a call that
  acts outside the monitor: running the probe subprocess, a throwaway
  \<open>p.cpu_percent(None)\<close>, \<open>time.sleep\<close>.\<close>

datatype event =
    Set_prev_net_io net_io
  | Set_prev_disk_io disk_io
  | Set_prev_sample_ts rat
  | Set_last_temp "temps option"
  | Set_last_temp_ts rat
  | Set_proc_prime_ts rat
  | Append_cpu_history rat
  | Append_memory_history rat
  | Append_network_history rat
  | Subprocess_run
  | Cpu_percent_read
  | Sleep rat

fun apply_event :: "event \<Rightarrow> monitor \<Rightarrow> monitor" where
  "apply_event (Set_prev_net_io v) s = s\<lparr>prev_net_io := v\<rparr>"
| "apply_event (Set_prev_disk_io v) s = s\<lparr>prev_disk_io := Some v\<rparr>"
| "apply_event (Set_prev_sample_ts v) s = s\<lparr>prev_sample_ts := v\<rparr>"
| "apply_event (Set_last_temp v) s = s\<lparr>last_temp := v\<rparr>"
| "apply_event (Set_last_temp_ts v) s = s\<lparr>last_temp_ts := v\<rparr>"
| "apply_event (Set_proc_prime_ts v) s = s\<lparr>proc_prime_ts := v\<rparr>"
| "apply_event (Append_cpu_history v) s = s\<lparr>cpu_history := deque_append v (cpu_history s)\<rparr>"
| "apply_event (Append_memory_history v) s =
     s\<lparr>memory_history := deque_append v (memory_history s)\<rparr>"
| "apply_event (Append_network_history v) s =
     s\<lparr>network_history := deque_append v (network_history s)\<rparr>"
| "apply_event Subprocess_run s = s"
| "apply_event Cpu_percent_read s = s"
| "apply_event (Sleep d) s = s"

fun run_events :: "monitor \<Rightarrow> event list \<Rightarrow> monitor" where
  "run_events s [] = s"
| "run_events s (e # es) = run_events (apply_event e s) es"

subsection \<open>Rates: \<open>get_network_info\<close> and \<open>get_disk_info\<close>\<close>

text \<open>The local \<open>dt\<close> of both methods: the time since \<open>_prev_sample_ts\<close>, floored at
  \<open>1e-6\<close>.\<close>

definition dt :: "rat \<Rightarrow> monitor \<Rightarrow> rat" where
  "dt now s = max (now - prev_sample_ts s) (1 / 1000000)"

text \<open>The locals \<open>sent_rate\<close> and \<open>recv_rate\<close> of \<open>get_network_info\<close>, in bytes per second.\<close>

definition sent_rate :: "net_io \<Rightarrow> rat \<Rightarrow> monitor \<Rightarrow> rat" where
  "sent_rate net now s = of_int (bytes_sent net - bytes_sent (prev_net_io s)) / dt now s"

definition recv_rate :: "net_io \<Rightarrow> rat \<Rightarrow> monitor \<Rightarrow> rat" where
  "recv_rate net now s = of_int (bytes_recv net - bytes_recv (prev_net_io s)) / dt now s"

record net_report =
  bytes_sent_mib :: rat
  bytes_recv_mib :: rat
  send_rate_mib_s :: rat
  recv_rate_mib_s :: rat
  report_packets_sent :: int
  report_packets_recv :: int

definition get_network_info :: "net_io \<Rightarrow> rat \<Rightarrow> monitor \<Rightarrow> net_report \<times> event list" where
  "get_network_info net now s =
     (\<lparr>bytes_sent_mib = py_round (of_int (bytes_sent net) / 1024 ^ 2) 2,
       bytes_recv_mib = py_round (of_int (bytes_recv net) / 1024 ^ 2) 2,
       send_rate_mib_s = py_round (sent_rate net now s / 1024 ^ 2) 2,
       recv_rate_mib_s = py_round (recv_rate net now s / 1024 ^ 2) 2,
       report_packets_sent = packets_sent net,
       report_packets_recv = packets_recv net\<rparr>,
      [Set_prev_net_io net, Set_prev_sample_ts now])"

text \<open>The locals \<open>read_rate_mib_s\<close> and \<open>write_rate_mib_s\<close> of \<open>get_disk_info\<close>, before
  they are rounded.\<close>

definition read_rate_mib_s :: "disk_io \<Rightarrow> disk_io \<Rightarrow> rat \<Rightarrow> monitor \<Rightarrow> rat" where
  "read_rate_mib_s io prev now s =
     of_int (read_bytes io - read_bytes prev) / 1024 ^ 2 / dt now s"

definition write_rate_mib_s :: "disk_io \<Rightarrow> disk_io \<Rightarrow> rat \<Rightarrow> monitor \<Rightarrow> rat" where
  "write_rate_mib_s io prev now s =
     of_int (write_bytes io - write_bytes prev) / 1024 ^ 2 / dt now s"

record partition_info =
  info_device :: string
  info_mountpoint :: string
  info_fstype :: string
  total_gib :: rat
  used_gib :: rat
  free_gib :: rat
  info_percent :: rat

record io_stats =
  read_mib :: rat
  write_mib :: rat
  stats_read_rate_mib_s :: rat
  stats_write_rate_mib_s :: rat
  stats_read_count :: int
  stats_write_count :: int

record disk_report =
  partitions :: "partition_info list"
  io_stats :: "io_stats option"

definition partition_entry :: "partition \<Rightarrow> usage \<Rightarrow> partition_info" where
  "partition_entry p u =
     \<lparr>info_device = device p,
      info_mountpoint = mountpoint p,
      info_fstype = fstype p,
      total_gib = py_round (of_int (total u) / 1024 ^ 3) 2,
      used_gib = py_round (of_int (used u) / 1024 ^ 3) 2,
      free_gib = py_round (of_int (free u) / 1024 ^ 3) 2,
      info_percent = percent u\<rparr>"

text \<open>The loop over the partitions: \<open>psutil.disk_usage\<close> returns a usage or raises;
  \<open>PermissionError\<close> and \<open>FileNotFoundError\<close> skip the partition, anything else leaves the
  method.\<close>

fun partition_loop :: "(string \<Rightarrow> exn + usage) \<Rightarrow> partition list \<Rightarrow> exn + partition_info list" where
  "partition_loop disk_usage [] = Inr []"
| "partition_loop disk_usage (p # ps) =
     (case disk_usage (mountpoint p) of
        Inr u \<Rightarrow>
          (case partition_loop disk_usage ps of
             Inl e \<Rightarrow> Inl e
           | Inr disk_info \<Rightarrow> Inr (partition_entry p u # disk_info))
      | Inl e \<Rightarrow>
          if e \<in> set [PermissionError, FileNotFoundError]
          then partition_loop disk_usage ps
          else Inl e)"

text \<open>\<open>psutil.disk_io_counters()\<close> is \<open>None\<close> on a host without disks, at construction as
  well as later; reading \<open>prev.read_bytes\<close> of a \<open>None\<close> baseline raises.\<close>

definition get_disk_info ::
  "partition list \<Rightarrow> (string \<Rightarrow> exn + usage) \<Rightarrow> disk_io option \<Rightarrow> rat \<Rightarrow> monitor
     \<Rightarrow> (exn + disk_report) \<times> event list" where
  "get_disk_info parts disk_usage io_counters now s =
     (case partition_loop disk_usage parts of
        Inl e \<Rightarrow> (Inl e, [])
      | Inr disk_info \<Rightarrow>
          (case io_counters of
             None \<Rightarrow> (Inr \<lparr>partitions = disk_info, io_stats = None\<rparr>, [])
           | Some io \<Rightarrow>
               (case prev_disk_io s of
                  None \<Rightarrow> (Inl AttributeError, [])
                | Some prev \<Rightarrow>
                    (Inr \<lparr>partitions = disk_info,
                          io_stats = Some
                            \<lparr>read_mib = py_round (of_int (read_bytes io) / 1024 ^ 2) 2,
                             write_mib = py_round (of_int (write_bytes io) / 1024 ^ 2) 2,
                             stats_read_rate_mib_s = py_round (read_rate_mib_s io prev now s) 2,
                             stats_write_rate_mib_s = py_round (write_rate_mib_s io prev now s) 2,
                             stats_read_count = read_count io,
                             stats_write_count = write_count io\<rparr>\<rparr>,
                     [Set_prev_disk_io io]))))"

subsection \<open>\<open>get_battery_info\<close>\<close>

record battery_info =
  percent_left :: rat
  plugged_in :: "bool option"
  time_left_minutes :: "int option"

definition get_battery_info :: "battery option \<Rightarrow> battery_info option" where
  "get_battery_info sensors_battery =
     (case sensors_battery of
        Some b \<Rightarrow>
          Some \<lparr>percent_left = battery_percent b,
                plugged_in = power_plugged b,
                time_left_minutes =
                  (if secsleft b \<noteq> POWER_TIME_UNLIMITED then Some (secsleft b div 60) else None)\<rparr>
      | None \<Rightarrow> None)"

subsection \<open>\<open>get_temperature_info\<close>\<close>

text \<open>The body of the loop over the lines of the probe's output, for a line that mentions
  the CPU die temperature: \<open>float(line.split(':')[1].strip().replace(' C', ''))\<close>. The
  builtin \<open>float\<close> is a parameter, \<open>None\<close> where it raises \<open>ValueError\<close>.\<close>

definition parse_line :: "(string \<Rightarrow> rat option) \<Rightarrow> string \<Rightarrow> exn + rat" where
  "parse_line py_float line =
     (case split_on CHR '':'' line of
        a # b # rest \<Rightarrow>
          (case py_float (replace_space_C (strip b)) of
             None \<Rightarrow> Inl ValueError
           | Some v \<Rightarrow> Inr v)
      | _ \<Rightarrow> Inl IndexError)"

text \<open>The loop: a line that parses overwrites \<open>temps['cpu_temp_c']\<close>, one that raises is
  skipped by \<open>except Exception: continue\<close>.\<close>

fun parse_lines :: "(string \<Rightarrow> rat option) \<Rightarrow> string list \<Rightarrow> temps option \<Rightarrow> temps option" where
  "parse_lines py_float [] temps = temps"
| "parse_lines py_float (line # lines) temps =
     (if contains ''CPU die temperature'' line
      then (case parse_line py_float line of
              Inr v \<Rightarrow> parse_lines py_float lines (Some \<lparr>cpu_temp_c = v\<rparr>)
            | Inl e \<Rightarrow> parse_lines py_float lines temps)
      else parse_lines py_float lines temps)"

text \<open>\<open>run\<close> is what \<open>subprocess.run\<close> does when the method calls it: it returns a
  completed process or raises.\<close>

definition get_temperature_info ::
  "(string \<Rightarrow> rat option) \<Rightarrow> exn + completed_process \<Rightarrow> rat \<Rightarrow> monitor
     \<Rightarrow> (exn + temps option) \<times> event list" where
  "get_temperature_info py_float run now s =
     (if \<not> enable_temps s then (Inr None, [])
      else if now - last_temp_ts s < temp_refresh_seconds s \<and> last_temp s \<noteq> None
      then (Inr (last_temp s), [])
      else
        (case run of
           Inl e \<Rightarrow>
             if e \<in> set [TimeoutExpired, CalledProcessError, FileNotFoundError]
             then (Inr None, [Subprocess_run])
             else (Inl e, [Subprocess_run])
         | Inr result \<Rightarrow>
             if returncode result = 0
             then (let temps = parse_lines py_float (split_on CHR 0x0A (stdout result)) None
                   in (Inr temps, [Subprocess_run, Set_last_temp temps, Set_last_temp_ts now]))
             else (Inr None, [Subprocess_run])))"

subsection \<open>\<open>get_top_processes\<close>\<close>

record proc_record =
  pid :: int
  name :: "string option"
  cpu_percent :: rat
  memory_percent :: rat
  username :: "string option"

text \<open>The priming loop: one throwaway \<open>p.cpu_percent(None)\<close> for each process, which
  returns or raises.\<close>

fun prime_loop :: "(exn + rat) list \<Rightarrow> (exn + unit) \<times> event list" where
  "prime_loop [] = (Inr (), [])"
| "prime_loop (r # rs) =
     (case r of
        Inr v \<Rightarrow> (case prime_loop rs of (res, evs) \<Rightarrow> (res, Cpu_percent_read # evs))
      | Inl e \<Rightarrow>
          if e \<in> set [NoSuchProcess, AccessDenied, ZombieProcess]
          then (case prime_loop rs of (res, evs) \<Rightarrow> (res, Cpu_percent_read # evs))
          else (Inl e, [Cpu_percent_read]))"

definition process_entry :: "proc_info \<Rightarrow> proc_record" where
  "process_entry info =
     (let cpu_pct = (case info_cpu_percent info of None \<Rightarrow> 0 | Some v \<Rightarrow> v);
          mem_pct = (case info_memory_percent info of None \<Rightarrow> 0 | Some v \<Rightarrow> v)
      in \<lparr>pid = info_pid info,
          name = info_name info,
          cpu_percent = cpu_pct,
          memory_percent = py_round mem_pct 2,
          username = info_username info\<rparr>)"

text \<open>The loop that collects the records: the body of the \<open>try\<close> yields the record of a
  process or raises; the three \<open>psutil\<close> exceptions skip the process.\<close>

fun collect_processes :: "(exn + proc_info) list \<Rightarrow> exn + proc_record list" where
  "collect_processes [] = Inr []"
| "collect_processes (p # ps) =
     (case p of
        Inr info \<Rightarrow>
          (case collect_processes ps of
             Inl e \<Rightarrow> Inl e
           | Inr processes \<Rightarrow> Inr (process_entry info # processes))
      | Inl e \<Rightarrow>
          if e \<in> set [NoSuchProcess, AccessDenied, ZombieProcess]
          then collect_processes ps
          else Inl e)"

text \<open>The first block of the method: the priming pass, its delay and its timestamp.\<close>

definition prime :: "(exn + rat) list \<Rightarrow> rat \<Rightarrow> string \<Rightarrow> monitor \<Rightarrow> (exn + unit) \<times> event list" where
  "prime priming now sort_by s =
     (if sort_by = ''cpu'' \<and> 5 < now - proc_prime_ts s
      then (case prime_loop priming of
              (Inl e, evs) \<Rightarrow> (Inl e, evs)
            | (Inr u, evs) \<Rightarrow> (Inr (), evs @ [Sleep (1 / 5), Set_proc_prime_ts now]))
      else (Inr (), []))"

definition get_top_processes ::
  "(exn + rat) list \<Rightarrow> (exn + proc_info) list \<Rightarrow> rat \<Rightarrow> int \<Rightarrow> string \<Rightarrow> monitor
     \<Rightarrow> (exn + proc_record list) \<times> event list" where
  "get_top_processes priming process_iter now num sort_by s =
     (case prime priming now sort_by s of
        (Inl e, evs) \<Rightarrow> (Inl e, evs)
      | (Inr u, evs) \<Rightarrow>
          (case collect_processes process_iter of
             Inl e \<Rightarrow> (Inl e, evs)
           | Inr processes \<Rightarrow>
               (let sort_by' = (if sort_by \<notin> set [''cpu'', ''memory''] then ''cpu'' else sort_by);
                    ranked = (if sort_by' = ''cpu''
                              then sort_reverse cpu_percent processes
                              else sort_reverse memory_percent processes)
                in (Inr (slice_to num ranked), evs))))"

subsection \<open>The histories and the report\<close>

text \<open>The three appends of \<open>print_performance_report\<close>, from the CPU usage, the memory
  percentage and the network report it has just collected.\<close>

definition update_history :: "rat \<Rightarrow> rat \<Rightarrow> net_report \<Rightarrow> event list" where
  "update_history overall_usage mem_percent net =
     [Append_cpu_history overall_usage,
      Append_memory_history mem_percent,
      Append_network_history (send_rate_mib_s net + recv_rate_mib_s net)]"

text \<open>What the operating system answers during one \<open>get_json_report\<close>: each method reads
  the clock itself.\<close>

record readings =
  disk_partitions :: "partition list"
  disk_usage :: "string \<Rightarrow> exn + usage"
  disk_io_counters :: "disk_io option"
  disk_now :: rat
  net_io_counters :: net_io
  net_now :: rat
  probe_run :: "exn + completed_process"
  temp_now :: rat
  sensors_battery :: "battery option"
  priming :: "(exn + rat) list"
  process_iter :: "(exn + proc_info) list"
  proc_now :: rat

text \<open>The entries of the report that come from the methods above; a key that is left out
  of the dictionary is \<open>None\<close>. The entries \<open>timestamp\<close>, \<open>uptime\<close>, \<open>cpu\<close> and
  \<open>memory\<close> are gauges read from the operating system that neither read nor change the
  monitor; they are not part of the model.\<close>

record json_report =
  disk :: disk_report
  network :: net_report
  temperature :: "temps option"
  battery :: "battery_info option option"
  top_processes :: "proc_record list option"

definition get_json_report ::
  "(string \<Rightarrow> rat option) \<Rightarrow> readings \<Rightarrow> bool \<Rightarrow> int \<Rightarrow> string \<Rightarrow> bool \<Rightarrow> monitor
     \<Rightarrow> (exn + json_report) \<times> event list" where
  "get_json_report py_float os include_processes top_n sort_by include_battery s =
     (case get_disk_info (disk_partitions os) (disk_usage os) (disk_io_counters os) (disk_now os) s of
        (Inl e, ev1) \<Rightarrow> (Inl e, ev1)
      | (Inr d, ev1) \<Rightarrow>
          (let s1 = run_events s ev1;
               (n, ev2) = get_network_info (net_io_counters os) (net_now os) s1;
               s2 = run_events s1 ev2
           in case get_temperature_info py_float (probe_run os) (temp_now os) s2 of
                (Inl e, ev3) \<Rightarrow> (Inl e, ev1 @ ev2 @ ev3)
              | (Inr t, ev3) \<Rightarrow>
                  (let s3 = run_events s2 ev3;
                       b = (if include_battery then Some (get_battery_info (sensors_battery os))
                            else None)
                   in if include_processes
                      then (case get_top_processes (priming os) (process_iter os) (proc_now os)
                                   top_n sort_by s3 of
                              (Inl e, ev4) \<Rightarrow> (Inl e, ev1 @ ev2 @ ev3 @ ev4)
                            | (Inr top_list, ev4) \<Rightarrow>
                                (Inr \<lparr>disk = d, network = n, temperature = t, battery = b,
                                      top_processes = Some top_list\<rparr>,
                                 ev1 @ ev2 @ ev3 @ ev4))
                      else (Inr \<lparr>disk = d, network = n, temperature = t, battery = b,
                                  top_processes = None\<rparr>,
                            ev1 @ ev2 @ ev3))))"

text \<open>The effects of a run of reports on the histories: \<open>ticks\<close> holds, for each report,
  the CPU usage, the memory percentage and the network report it collected.\<close>

definition history_events :: "(rat \<times> rat \<times> net_report) list \<Rightarrow> event list" where
  "history_events ticks = concat (map (\<lambda>(c, m, n). update_history c m n) ticks)"

subsection \<open>Concrete readings\<close>

text \<open>Two snapshots of the network counters and of the disk counters in which one counter
  has gone down and one has gone up, and a monitor constructed at time 0 from the first
  of each.\<close>

definition counters_before :: net_io where
  "counters_before = \<lparr>bytes_sent = 2097152, bytes_recv = 0, packets_sent = 7, packets_recv = 9\<rparr>"

definition counters_after :: net_io where
  "counters_after = \<lparr>bytes_sent = 0, bytes_recv = 1048576, packets_sent = 8, packets_recv = 9\<rparr>"

definition disk_before :: disk_io where
  "disk_before = \<lparr>read_count = 3, write_count = 4, read_bytes = 2097152, write_bytes = 0\<rparr>"

definition disk_after :: disk_io where
  "disk_after = \<lparr>read_count = 3, write_count = 5, read_bytes = 0, write_bytes = 1048576\<rparr>"

definition monitor0 :: monitor where
  "monitor0 = init 0 counters_before (Some disk_before)"

text \<open>The same the other way round: a monitor constructed from the second of each.\<close>

definition monitor1 :: monitor where
  "monitor1 = init 0 counters_after (Some disk_after)"

text \<open>A host on which no mount point can be read.\<close>

definition no_usage :: "string \<Rightarrow> exn + usage" where
  "no_usage m = Inl FileNotFoundError"

text \<open>The counters of the specification's example: nothing sent at time 0, one mebibyte
  sent at time 1.\<close>

definition counters_zero :: net_io where
  "counters_zero = \<lparr>bytes_sent = 0, bytes_recv = 0, packets_sent = 0, packets_recv = 0\<rparr>"

definition counters_mib :: net_io where
  "counters_mib = \<lparr>bytes_sent = 1048576, bytes_recv = 0, packets_sent = 0, packets_recv = 0\<rparr>"

subsection \<open>Concrete probes\<close>

text \<open>The builtin \<open>float\<close> on the one string the examples give it.\<close>

definition float_45 :: "string \<Rightarrow> rat option" where
  "float_45 t = (if t = ''45.5'' then Some (91 / 2) else None)"

text \<open>A probe that reports a reading, one that exits with status 0 and reports none, one that
  times out; and the monitor above with temperatures enabled.\<close>

definition probe_reading :: "exn + completed_process" where
  "probe_reading = Inr \<lparr>returncode = 0, stdout = ''CPU die temperature: 45.5 C''\<rparr>"

definition probe_silent :: "exn + completed_process" where
  "probe_silent = Inr \<lparr>returncode = 0, stdout = ''no sensors''\<rparr>"

definition probe_timeout :: "exn + completed_process" where
  "probe_timeout = Inl TimeoutExpired"

definition monitor_temps :: monitor where
  "monitor_temps = monitor0\<lparr>enable_temps := True\<rparr>"

subsection \<open>Process tables\<close>

text \<open>The values that a list of calls yielded, leaving out the calls that raised.\<close>

fun yielded :: "(exn + 'a) list \<Rightarrow> 'a list" where
  "yielded [] = []"
| "yielded (Inr x # ps) = x # yielded ps"
| "yielded (Inl e # ps) = yielded ps"

text \<open>The exceptions that the two loops of \<open>get_top_processes\<close> catch, and the lists of
  calls in which nothing else is raised than the exceptions named.\<close>

definition psutil_errors :: "exn list" where
  "psutil_errors = [NoSuchProcess, AccessDenied, ZombieProcess]"

definition only_raises :: "exn list \<Rightarrow> (exn + 'a) list \<Rightarrow> bool" where
  "only_raises handled rs =
     list_all (\<lambda>r. case r of Inl e \<Rightarrow> e \<in> set handled | Inr v \<Rightarrow> True) rs"

text \<open>A process table of four readable processes, two with equal CPU usage and one whose
  attributes could not be read, and one process that has vanished; the throwaway reads of
  a priming pass; and the records of the four processes.\<close>

definition table :: "(exn + proc_info) list" where
  "table =
     [Inr \<lparr>info_pid = 1, info_name = Some ''launchd'', info_cpu_percent = Some 5,
           info_memory_percent = Some 1, info_username = Some ''root''\<rparr>,
      Inl NoSuchProcess,
      Inr \<lparr>info_pid = 2, info_name = Some ''python'', info_cpu_percent = Some 9,
           info_memory_percent = Some 3, info_username = Some ''user''\<rparr>,
      Inr \<lparr>info_pid = 3, info_name = None, info_cpu_percent = None,
           info_memory_percent = None, info_username = None\<rparr>,
      Inr \<lparr>info_pid = 4, info_name = Some ''zsh'', info_cpu_percent = Some 5,
           info_memory_percent = Some 2, info_username = Some ''user''\<rparr>]"

definition throwaway_reads :: "(exn + rat) list" where
  "throwaway_reads = [Inr 0, Inl AccessDenied]"

definition record_launchd :: proc_record where
  "record_launchd = \<lparr>pid = 1, name = Some ''launchd'', cpu_percent = 5, memory_percent = 1,
                      username = Some ''root''\<rparr>"

definition record_python :: proc_record where
  "record_python = \<lparr>pid = 2, name = Some ''python'', cpu_percent = 9, memory_percent = 3,
                     username = Some ''user''\<rparr>"

definition record_unreadable :: proc_record where
  "record_unreadable = \<lparr>pid = 3, name = None, cpu_percent = 0, memory_percent = 0,
                         username = None\<rparr>"

definition record_zsh :: proc_record where
  "record_zsh = \<lparr>pid = 4, name = Some ''zsh'', cpu_percent = 5, memory_percent = 2,
                  username = Some ''user''\<rparr>"

subsection \<open>A failed probe, and a concrete host\<close>

text \<open>A probe has failed when \<open>subprocess.run\<close> raised or the exit status is not 0.\<close>

definition failed :: "exn + completed_process \<Rightarrow> bool" where
  "failed run = (case run of Inl e \<Rightarrow> True | Inr result \<Rightarrow> returncode result \<noteq> 0)"

text \<open>A host with two partitions, of which the second may not be read, without a battery,
  whose probe times out, with the counters and the process table above.\<close>

definition usage_of :: "string \<Rightarrow> exn + usage" where
  "usage_of m =
     (if m = ''/'' then Inr \<lparr>total = 2147483648, used = 1073741824, free = 1073741824, percent = 50\<rparr>
      else Inl PermissionError)"

definition host :: readings where
  "host =
     \<lparr>disk_partitions =
        [\<lparr>device = ''/dev/disk1'', mountpoint = ''/'', fstype = ''apfs''\<rparr>,
         \<lparr>device = ''/dev/disk2'', mountpoint = ''/private'', fstype = ''apfs''\<rparr>],
      disk_usage = usage_of,
      disk_io_counters = Some disk_after,
      disk_now = 1,
      net_io_counters = counters_after,
      net_now = 1,
      probe_run = probe_timeout,
      temp_now = 1,
      sensors_battery = None,
      priming = throwaway_reads,
      process_iter = table,
      proc_now = 10\<rparr>"

section \<open>Properties\<close>

subsection \<open>The history windows\<close>

lemma maxlen_deque_append: "maxlen (deque_append v d) = maxlen d"
  by (simp add: deque_append_def Let_def)

lemma items_deque_append_room:
  "length (items d) < maxlen d \<Longrightarrow> items (deque_append v d) = items d @ [v]"
  by (simp add: deque_append_def Let_def)

lemma items_deque_append_full:
  "length (items d) = maxlen d \<Longrightarrow> items (deque_append v d) = tl (items d @ [v])"
  by (simp add: deque_append_def Let_def)

text \<open>A window that is within its capacity holds, after any pushes, the newest values that
  fit.\<close>

lemma deque_extend_drop:
  "length (items d) \<le> maxlen d \<Longrightarrow>
     items (deque_extend vs d) = drop (length (items d) + length vs - maxlen d) (items d @ vs)
     \<and> maxlen (deque_extend vs d) = maxlen d"
proof (induction vs arbitrary: d)
  case Nil
  then show ?case by simp
next
  case (Cons v vs)
  let ?d = "deque_append v d"
  have m: "maxlen ?d = maxlen d" by (rule maxlen_deque_append)
  show ?case
  proof (cases "length (items d) < maxlen d")
    case True
    then have i: "items ?d = items d @ [v]" by (rule items_deque_append_room)
    then have "length (items ?d) \<le> maxlen ?d" using True m by simp
    from Cons.IH[OF this] show ?thesis using i m by simp
  next
    case False
    then have full: "length (items d) = maxlen d" using Cons.prems by simp
    then have i: "items ?d = tl (items d @ [v])" by (rule items_deque_append_full)
    then have l: "length (items ?d) = maxlen ?d" using full m by simp
    then have "length (items ?d) \<le> maxlen ?d" by simp
    from Cons.IH[OF this] have ih: "items (deque_extend vs ?d) = drop (length vs) (items ?d @ vs)"
      and ihm: "maxlen (deque_extend vs ?d) = maxlen d"
      using l m by simp_all
    have "drop (length (items d) + length (v # vs) - maxlen d) (items d @ v # vs)
          = drop (Suc (length vs)) (items d @ v # vs)"
      by (simp add: full[symmetric])
    also have "\<dots> = drop (length vs) (tl (items d @ [v]) @ vs)"
      by (cases "items d") simp_all
    finally show ?thesis using ih ihm i by simp
  qed
qed

lemma run_events_append: "run_events s (es @ fs) = run_events (run_events s es) fs"
  by (induction es arbitrary: s) simp_all

lemma histories_update_history:
  "cpu_history (run_events s (update_history c m n)) = deque_append c (cpu_history s)"
  "memory_history (run_events s (update_history c m n)) = deque_append m (memory_history s)"
  "network_history (run_events s (update_history c m n)) =
     deque_append (send_rate_mib_s n + recv_rate_mib_s n) (network_history s)"
  by (simp_all add: update_history_def)

lemma histories_history_events:
  "cpu_history (run_events s (history_events ticks)) =
     deque_extend (map fst ticks) (cpu_history s)
   \<and> memory_history (run_events s (history_events ticks)) =
     deque_extend (map (\<lambda>(c, m, n). m) ticks) (memory_history s)
   \<and> network_history (run_events s (history_events ticks)) =
     deque_extend (map (\<lambda>(c, m, n). send_rate_mib_s n + recv_rate_mib_s n) ticks)
       (network_history s)"
proof (induction ticks arbitrary: s)
  case Nil
  then show ?case by (simp add: history_events_def)
next
  case (Cons t ts)
  obtain c m n where t: "t = (c, m, n)" by (cases t) auto
  have "history_events (t # ts) = update_history c m n @ history_events ts"
    by (simp add: history_events_def t)
  then show ?case
    using Cons.IH by (simp add: run_events_append histories_update_history t)
qed

text \<open>
  \<^bold>\<open>C8.\<close> A history window of capacity \<open>k\<close> that has received more than \<open>k\<close> values holds
  exactly \<open>k\<close> of them: the last \<open>k\<close> pushed, oldest first. An insert into a full window
  drops the oldest sample and appends the new one. The three histories of the monitor are
  such windows of capacity 20, fed by the reports in order.
\<close>

theorem history_window_last_k:
  "(k < length vs \<longrightarrow>
      items (deque_extend vs (deque_new k)) = drop (length vs - k) vs
      \<and> length (items (deque_extend vs (deque_new k))) = k)
   \<and> (length (items d) = maxlen d \<and> 0 < maxlen d \<longrightarrow>
        items (deque_append v d) = tl (items d) @ [v])
   \<and> cpu_history (run_events (init t0 n0 d0) (history_events ticks))
        = deque_extend (map fst ticks) (deque_new 20)
   \<and> memory_history (run_events (init t0 n0 d0) (history_events ticks))
        = deque_extend (map (\<lambda>(c, m, n). m) ticks) (deque_new 20)
   \<and> network_history (run_events (init t0 n0 d0) (history_events ticks))
        = deque_extend (map (\<lambda>(c, m, n). send_rate_mib_s n + recv_rate_mib_s n) ticks)
            (deque_new 20)"
proof (intro conjI impI)
  have e: "length (items (deque_new k :: 'a deque)) \<le> maxlen (deque_new k :: 'a deque)"
    by (simp add: deque_new_def)
  assume long: "k < length vs"
  from deque_extend_drop[OF e, of vs]
  show "items (deque_extend vs (deque_new k)) = drop (length vs - k) vs"
    by (simp add: deque_new_def)
  then show "length (items (deque_extend vs (deque_new k))) = k"
    using long by simp
next
  assume "length (items d) = maxlen d \<and> 0 < maxlen d"
  then show "items (deque_append v d) = tl (items d) @ [v]"
    by (cases "items d") (auto simp add: deque_append_def Let_def)
next
  show "cpu_history (run_events (init t0 n0 d0) (history_events ticks))
        = deque_extend (map fst ticks) (deque_new 20)"
    using histories_history_events[of "init t0 n0 d0" ticks] by (simp add: init_def)
next
  show "memory_history (run_events (init t0 n0 d0) (history_events ticks))
        = deque_extend (map (\<lambda>(c, m, n). m) ticks) (deque_new 20)"
    using histories_history_events[of "init t0 n0 d0" ticks] by (simp add: init_def)
next
  show "network_history (run_events (init t0 n0 d0) (history_events ticks))
        = deque_extend (map (\<lambda>(c, m, n). send_rate_mib_s n + recv_rate_mib_s n) ticks)
            (deque_new 20)"
    using histories_history_events[of "init t0 n0 d0" ticks] by (simp add: init_def)
qed

theorem history_window_last_k_witness:
  "5 < length [10, 20, 30, 40, 50, 60 :: int]
   \<and> items (deque_extend [10, 20, 30, 40, 50, 60 :: int] (deque_new 5)) = [20, 30, 40, 50, 60]
   \<and> length (items \<lparr>maxlen = 3, items = [1, 2, 3 :: int]\<rparr>)
       = maxlen \<lparr>maxlen = 3, items = [1, 2, 3 :: int]\<rparr>
   \<and> items (deque_append (4::int) \<lparr>maxlen = 3, items = [1, 2, 3]\<rparr>) = [2, 3, 4]"
  using history_window_last_k
    [of 5 "[10, 20, 30, 40, 50, 60 :: int]" "\<lparr>maxlen = 3, items = [1, 2, 3 :: int]\<rparr>" 4]
  by simp

subsection \<open>Rates\<close>

lemmas example_defs = counters_before_def counters_after_def disk_before_def disk_after_def
  no_usage_def monitor0_def monitor1_def init_def

lemma dt_floor: "1 / 1000000 \<le> dt now s" and dt_pos: "0 < dt now s"
  by (simp_all add: dt_def max_def)

lemma round_half_even_nonpos: "x \<le> 0 \<Longrightarrow> round_half_even x \<le> 0"
proof -
  assume x: "x \<le> 0"
  have f: "\<lfloor>x\<rfloor> \<le> 0" using x by (simp add: floor_le_zero)
  show ?thesis
  proof (cases "x - of_int \<lfloor>x\<rfloor> < 1 / 2")
    case True
    then show ?thesis using f by (simp add: round_half_even_def Let_def)
  next
    case False
    then have "of_int \<lfloor>x\<rfloor> < x" by simp
    then have nz: "\<lfloor>x\<rfloor> \<noteq> 0" using x by auto
    have "\<lfloor>x\<rfloor> + 1 \<le> 0" using f nz by linarith
    then show ?thesis using f by (simp add: round_half_even_def Let_def)
  qed
qed

lemma round_half_even_nonneg: "0 \<le> x \<Longrightarrow> 0 \<le> round_half_even x"
proof -
  assume "0 \<le> x"
  then have "0 \<le> \<lfloor>x\<rfloor>" by simp
  then show ?thesis by (simp add: round_half_even_def Let_def)
qed

lemma py_round_nonpos: "x \<le> 0 \<Longrightarrow> py_round x n \<le> 0"
proof -
  assume "x \<le> 0"
  then have "x * 10 ^ n \<le> 0" by (simp add: mult_le_0_iff)
  then have "round_half_even (x * 10 ^ n) \<le> 0" by (rule round_half_even_nonpos)
  then show ?thesis by (simp add: py_round_def divide_le_0_iff)
qed

lemma py_round_nonneg: "0 \<le> x \<Longrightarrow> 0 \<le> py_round x n"
proof -
  assume "0 \<le> x"
  then have "0 \<le> x * 10 ^ n" by simp
  then have "0 \<le> round_half_even (x * 10 ^ n)" by (rule round_half_even_nonneg)
  then show ?thesis by (simp add: py_round_def)
qed

lemma neg_rate: "(a::int) < b \<Longrightarrow> of_int (a - b) / dt now s < 0"
  using dt_pos[of now s] by (simp add: divide_less_0_iff)

lemma nonneg_rate: "(b::int) \<le> a \<Longrightarrow> 0 \<le> of_int (a - b) / dt now s"
  using dt_pos[of now s] by simp

lemma neg_rate_mib: "(a::int) < b \<Longrightarrow> of_int (a - b) / 1024 ^ 2 / dt now s < 0"
  using dt_pos[of now s] by (simp add: divide_less_0_iff)

lemma nonneg_rate_mib: "(b::int) \<le> a \<Longrightarrow> 0 \<le> of_int (a - b) / 1024 ^ 2 / dt now s"
  using dt_pos[of now s] by simp

text \<open>
  \<^bold>\<open>C1\<close>, as the code has it. When a counter's second reading is below its first, the rate
  computed for it is the difference over the floored elapsed time, which is negative: no
  rate is clamped to zero, and the reported rate, that value in MiB/s rounded to two
  decimals, is at most zero. A counter that did not go down has a rate of at least zero,
  computed by the same formula, independently of the other counters.
\<close>

theorem decreased_counter_rate_negative:
  "(bytes_sent net < bytes_sent (prev_net_io s) \<longrightarrow>
      sent_rate net now s < 0 \<and> send_rate_mib_s (fst (get_network_info net now s)) \<le> 0)
   \<and> (bytes_recv net < bytes_recv (prev_net_io s) \<longrightarrow>
      recv_rate net now s < 0 \<and> recv_rate_mib_s (fst (get_network_info net now s)) \<le> 0)
   \<and> (bytes_sent (prev_net_io s) \<le> bytes_sent net \<longrightarrow>
      0 \<le> sent_rate net now s \<and> 0 \<le> send_rate_mib_s (fst (get_network_info net now s)))
   \<and> (bytes_recv (prev_net_io s) \<le> bytes_recv net \<longrightarrow>
      0 \<le> recv_rate net now s \<and> 0 \<le> recv_rate_mib_s (fst (get_network_info net now s)))
   \<and> send_rate_mib_s (fst (get_network_info net now s)) = py_round (sent_rate net now s / 1024 ^ 2) 2
   \<and> recv_rate_mib_s (fst (get_network_info net now s)) = py_round (recv_rate net now s / 1024 ^ 2) 2
   \<and> (fst (get_disk_info parts du (Some io) now s) = Inr r \<longrightarrow>
        (\<exists>prev st. prev_disk_io s = Some prev \<and> io_stats r = Some st
           \<and> stats_read_rate_mib_s st = py_round (read_rate_mib_s io prev now s) 2
           \<and> stats_write_rate_mib_s st = py_round (write_rate_mib_s io prev now s) 2
           \<and> (read_bytes io < read_bytes prev \<longrightarrow>
                read_rate_mib_s io prev now s < 0 \<and> stats_read_rate_mib_s st \<le> 0)
           \<and> (write_bytes io < write_bytes prev \<longrightarrow>
                write_rate_mib_s io prev now s < 0 \<and> stats_write_rate_mib_s st \<le> 0)
           \<and> (read_bytes prev \<le> read_bytes io \<longrightarrow>
                0 \<le> read_rate_mib_s io prev now s \<and> 0 \<le> stats_read_rate_mib_s st)
           \<and> (write_bytes prev \<le> write_bytes io \<longrightarrow>
                0 \<le> write_rate_mib_s io prev now s \<and> 0 \<le> stats_write_rate_mib_s st)))"
proof (intro conjI impI)
  assume a: "bytes_sent net < bytes_sent (prev_net_io s)"
  then show "sent_rate net now s < 0" unfolding sent_rate_def by (rule neg_rate)
  then show "send_rate_mib_s (fst (get_network_info net now s)) \<le> 0"
    by (simp add: get_network_info_def py_round_nonpos divide_le_0_iff)
next
  assume a: "bytes_recv net < bytes_recv (prev_net_io s)"
  then show "recv_rate net now s < 0" unfolding recv_rate_def by (rule neg_rate)
  then show "recv_rate_mib_s (fst (get_network_info net now s)) \<le> 0"
    by (simp add: get_network_info_def py_round_nonpos divide_le_0_iff)
next
  assume a: "bytes_sent (prev_net_io s) \<le> bytes_sent net"
  then show "0 \<le> sent_rate net now s" unfolding sent_rate_def by (rule nonneg_rate)
  then show "0 \<le> send_rate_mib_s (fst (get_network_info net now s))"
    by (simp add: get_network_info_def py_round_nonneg)
next
  assume a: "bytes_recv (prev_net_io s) \<le> bytes_recv net"
  then show "0 \<le> recv_rate net now s" unfolding recv_rate_def by (rule nonneg_rate)
  then show "0 \<le> recv_rate_mib_s (fst (get_network_info net now s))"
    by (simp add: get_network_info_def py_round_nonneg)
next
  show "send_rate_mib_s (fst (get_network_info net now s)) = py_round (sent_rate net now s / 1024 ^ 2) 2"
    by (simp add: get_network_info_def)
next
  show "recv_rate_mib_s (fst (get_network_info net now s)) = py_round (recv_rate net now s / 1024 ^ 2) 2"
    by (simp add: get_network_info_def)
next
  assume ok: "fst (get_disk_info parts du (Some io) now s) = Inr r"
  then obtain prev where prev: "prev_disk_io s = Some prev"
    by (cases "prev_disk_io s") (auto simp add: get_disk_info_def split: sum.splits)
  from ok prev obtain st where st: "io_stats r = Some st"
    and rr: "stats_read_rate_mib_s st = py_round (read_rate_mib_s io prev now s) 2"
    and wr: "stats_write_rate_mib_s st = py_round (write_rate_mib_s io prev now s) 2"
    by (auto simp add: get_disk_info_def split: sum.splits)
  have "read_bytes io < read_bytes prev \<longrightarrow>
          read_rate_mib_s io prev now s < 0 \<and> stats_read_rate_mib_s st \<le> 0"
    using neg_rate_mib[of "read_bytes io" "read_bytes prev" now s] rr
    by (auto simp add: read_rate_mib_s_def intro: py_round_nonpos)
  moreover have "write_bytes io < write_bytes prev \<longrightarrow>
          write_rate_mib_s io prev now s < 0 \<and> stats_write_rate_mib_s st \<le> 0"
    using neg_rate_mib[of "write_bytes io" "write_bytes prev" now s] wr
    by (auto simp add: write_rate_mib_s_def intro: py_round_nonpos)
  moreover have "read_bytes prev \<le> read_bytes io \<longrightarrow>
          0 \<le> read_rate_mib_s io prev now s \<and> 0 \<le> stats_read_rate_mib_s st"
    using nonneg_rate_mib[of "read_bytes prev" "read_bytes io" now s] rr
    by (auto simp add: read_rate_mib_s_def intro: py_round_nonneg)
  moreover have "write_bytes prev \<le> write_bytes io \<longrightarrow>
          0 \<le> write_rate_mib_s io prev now s \<and> 0 \<le> stats_write_rate_mib_s st"
    using nonneg_rate_mib[of "write_bytes prev" "write_bytes io" now s] wr
    by (auto simp add: write_rate_mib_s_def intro: py_round_nonneg)
  ultimately show "\<exists>prev st. prev_disk_io s = Some prev \<and> io_stats r = Some st
           \<and> stats_read_rate_mib_s st = py_round (read_rate_mib_s io prev now s) 2
           \<and> stats_write_rate_mib_s st = py_round (write_rate_mib_s io prev now s) 2
           \<and> (read_bytes io < read_bytes prev \<longrightarrow>
                read_rate_mib_s io prev now s < 0 \<and> stats_read_rate_mib_s st \<le> 0)
           \<and> (write_bytes io < write_bytes prev \<longrightarrow>
                write_rate_mib_s io prev now s < 0 \<and> stats_write_rate_mib_s st \<le> 0)
           \<and> (read_bytes prev \<le> read_bytes io \<longrightarrow>
                0 \<le> read_rate_mib_s io prev now s \<and> 0 \<le> stats_read_rate_mib_s st)
           \<and> (write_bytes prev \<le> write_bytes io \<longrightarrow>
                0 \<le> write_rate_mib_s io prev now s \<and> 0 \<le> stats_write_rate_mib_s st)"
    using prev st rr wr by blast
qed


theorem decreased_counter_rate_negative_witness:
  "bytes_sent counters_after < bytes_sent (prev_net_io monitor0)
   \<and> sent_rate counters_after 1 monitor0 < 0
   \<and> send_rate_mib_s (fst (get_network_info counters_after 1 monitor0)) \<le> 0
   \<and> bytes_recv (prev_net_io monitor0) \<le> bytes_recv counters_after
   \<and> 0 \<le> recv_rate counters_after 1 monitor0
   \<and> fst (get_disk_info [] no_usage (Some disk_after) 1 monitor0) =
        Inr \<lparr>partitions = [],
             io_stats = Some \<lparr>read_mib = 0, write_mib = 1, stats_read_rate_mib_s = - 2,
                               stats_write_rate_mib_s = 1, stats_read_count = 3,
                               stats_write_count = 5\<rparr>\<rparr>
   \<and> read_bytes disk_after < read_bytes disk_before
   \<and> read_rate_mib_s disk_after disk_before 1 monitor0 < 0
   \<and> write_bytes disk_before \<le> write_bytes disk_after
   \<and> 0 \<le> write_rate_mib_s disk_after disk_before 1 monitor0
   \<and> bytes_recv counters_before < bytes_recv (prev_net_io monitor1)
   \<and> recv_rate counters_before 1 monitor1 < 0
   \<and> recv_rate_mib_s (fst (get_network_info counters_before 1 monitor1)) \<le> 0
   \<and> bytes_sent (prev_net_io monitor1) \<le> bytes_sent counters_before
   \<and> 0 \<le> sent_rate counters_before 1 monitor1
   \<and> fst (get_disk_info [] no_usage (Some disk_before) 1 monitor1) =
        Inr \<lparr>partitions = [],
             io_stats = Some \<lparr>read_mib = 2, write_mib = 0, stats_read_rate_mib_s = 2,
                               stats_write_rate_mib_s = - 1, stats_read_count = 3,
                               stats_write_count = 4\<rparr>\<rparr>
   \<and> write_bytes disk_before < write_bytes disk_after
   \<and> write_rate_mib_s disk_before disk_after 1 monitor1 < 0
   \<and> read_bytes disk_after \<le> read_bytes disk_before
   \<and> 0 \<le> read_rate_mib_s disk_before disk_after 1 monitor1"
proof -
  have d: "fst (get_disk_info [] no_usage (Some disk_after) 1 monitor0) =
        Inr \<lparr>partitions = [],
             io_stats = Some \<lparr>read_mib = 0, write_mib = 1, stats_read_rate_mib_s = - 2,
                               stats_write_rate_mib_s = 1, stats_read_count = 3,
                               stats_write_count = 5\<rparr>\<rparr>"
    by (simp add: example_defs get_disk_info_def read_rate_mib_s_def write_rate_mib_s_def
        dt_def py_round_def round_half_even_def)
  have p: "prev_disk_io monitor0 = Some disk_before" by (simp add: example_defs)
  have h: "bytes_sent counters_after < bytes_sent (prev_net_io monitor0)"
    "bytes_recv (prev_net_io monitor0) \<le> bytes_recv counters_after"
    "read_bytes disk_after < read_bytes disk_before"
    "write_bytes disk_before \<le> write_bytes disk_after"
    by (simp_all add: example_defs)
  have down: "sent_rate counters_after 1 monitor0 < 0
   \<and> send_rate_mib_s (fst (get_network_info counters_after 1 monitor0)) \<le> 0
   \<and> 0 \<le> recv_rate counters_after 1 monitor0
   \<and> read_rate_mib_s disk_after disk_before 1 monitor0 < 0
   \<and> 0 \<le> write_rate_mib_s disk_after disk_before 1 monitor0"
    using decreased_counter_rate_negative
      [of counters_after monitor0 1 "[]" no_usage disk_after
          "\<lparr>partitions = [],
             io_stats = Some \<lparr>read_mib = 0, write_mib = 1, stats_read_rate_mib_s = - 2,
                               stats_write_rate_mib_s = 1, stats_read_count = 3,
                               stats_write_count = 5\<rparr>\<rparr>"] d p h
    by auto
  have d': "fst (get_disk_info [] no_usage (Some disk_before) 1 monitor1) =
        Inr \<lparr>partitions = [],
             io_stats = Some \<lparr>read_mib = 2, write_mib = 0, stats_read_rate_mib_s = 2,
                               stats_write_rate_mib_s = - 1, stats_read_count = 3,
                               stats_write_count = 4\<rparr>\<rparr>"
    by (simp add: example_defs get_disk_info_def read_rate_mib_s_def write_rate_mib_s_def
        dt_def py_round_def round_half_even_def)
  have p': "prev_disk_io monitor1 = Some disk_after" by (simp add: example_defs)
  have h': "bytes_recv counters_before < bytes_recv (prev_net_io monitor1)"
    "bytes_sent (prev_net_io monitor1) \<le> bytes_sent counters_before"
    "write_bytes disk_before < write_bytes disk_after"
    "read_bytes disk_after \<le> read_bytes disk_before"
    by (simp_all add: example_defs)
  have up: "recv_rate counters_before 1 monitor1 < 0
   \<and> recv_rate_mib_s (fst (get_network_info counters_before 1 monitor1)) \<le> 0
   \<and> 0 \<le> sent_rate counters_before 1 monitor1
   \<and> write_rate_mib_s disk_before disk_after 1 monitor1 < 0
   \<and> 0 \<le> read_rate_mib_s disk_before disk_after 1 monitor1"
    using decreased_counter_rate_negative
      [of counters_before monitor1 1 "[]" no_usage disk_before
          "\<lparr>partitions = [],
             io_stats = Some \<lparr>read_mib = 2, write_mib = 0, stats_read_rate_mib_s = 2,
                               stats_write_rate_mib_s = - 1, stats_read_count = 3,
                               stats_write_count = 4\<rparr>\<rparr>"] d' p' h'
    by auto
  show ?thesis using down up d d' h h' by simp
qed

text \<open>The claim as the specification states it fails: the send counter and the disk read
  counter drop by two mebibytes in one second, and both reported rates are \<open>-2\<close> MiB/s.\<close>

theorem reset_rate_is_zero_counterexample:
  "bytes_sent counters_after < bytes_sent (prev_net_io monitor0)
   \<and> send_rate_mib_s (fst (get_network_info counters_after 1 monitor0)) = - 2
   \<and> prev_disk_io monitor0 = Some disk_before
   \<and> read_bytes disk_after < read_bytes disk_before
   \<and> fst (get_disk_info [] no_usage (Some disk_after) 1 monitor0) =
        Inr \<lparr>partitions = [],
             io_stats = Some \<lparr>read_mib = 0, write_mib = 1, stats_read_rate_mib_s = - 2,
                               stats_write_rate_mib_s = 1, stats_read_count = 3,
                               stats_write_count = 5\<rparr>\<rparr>"
  by (simp add: example_defs get_network_info_def get_disk_info_def sent_rate_def
      read_rate_mib_s_def write_rate_mib_s_def dt_def py_round_def round_half_even_def)

text \<open>
  \<^bold>\<open>C7.\<close> The rate computed for a counter is its difference over \<open>max(dt, 1e-6)\<close> where
  \<open>dt\<close> is the time since the stored timestamp; this is the difference over \<open>dt\<close> itself
  as soon as \<open>dt\<close> reaches the floor. The denominator is at least \<open>1e-6\<close> whatever the
  clock says, also when it has not advanced or has gone back, so no division is by zero.
\<close>

theorem rate_is_delta_over_floored_dt:
  "sent_rate net now s =
     of_int (bytes_sent net - bytes_sent (prev_net_io s)) / max (now - prev_sample_ts s) (1 / 1000000)
   \<and> recv_rate net now s =
     of_int (bytes_recv net - bytes_recv (prev_net_io s)) / max (now - prev_sample_ts s) (1 / 1000000)
   \<and> read_rate_mib_s io prev now s =
     of_int (read_bytes io - read_bytes prev) / 1024 ^ 2 / max (now - prev_sample_ts s) (1 / 1000000)
   \<and> write_rate_mib_s io prev now s =
     of_int (write_bytes io - write_bytes prev) / 1024 ^ 2 / max (now - prev_sample_ts s) (1 / 1000000)
   \<and> dt now s = max (now - prev_sample_ts s) (1 / 1000000)
   \<and> 0 < dt now s
   \<and> 1 / 1000000 \<le> dt now s
   \<and> (1 / 1000000 \<le> now - prev_sample_ts s \<longrightarrow>
        sent_rate net now s =
          of_int (bytes_sent net - bytes_sent (prev_net_io s)) / (now - prev_sample_ts s)
        \<and> recv_rate net now s =
          of_int (bytes_recv net - bytes_recv (prev_net_io s)) / (now - prev_sample_ts s)
        \<and> read_rate_mib_s io prev now s =
          of_int (read_bytes io - read_bytes prev) / 1024 ^ 2 / (now - prev_sample_ts s)
        \<and> write_rate_mib_s io prev now s =
          of_int (write_bytes io - write_bytes prev) / 1024 ^ 2 / (now - prev_sample_ts s))
   \<and> send_rate_mib_s (fst (get_network_info net now s)) =
        py_round (of_int (bytes_sent net - bytes_sent (prev_net_io s))
                    / max (now - prev_sample_ts s) (1 / 1000000) / 1024 ^ 2) 2
   \<and> recv_rate_mib_s (fst (get_network_info net now s)) =
        py_round (of_int (bytes_recv net - bytes_recv (prev_net_io s))
                    / max (now - prev_sample_ts s) (1 / 1000000) / 1024 ^ 2) 2"
proof -
  have m: "1 / 1000000 \<le> now - prev_sample_ts s \<Longrightarrow> dt now s = now - prev_sample_ts s"
    by (simp add: dt_def max_def)
  show ?thesis
    using dt_pos[of now s] dt_floor[of now s] m
    by (simp add: sent_rate_def recv_rate_def read_rate_mib_s_def write_rate_mib_s_def
        get_network_info_def) (simp add: dt_def)
qed

theorem rate_is_delta_over_floored_dt_witness:
  "1 / 1000000 \<le> 1 - prev_sample_ts (init 0 counters_zero None)
   \<and> sent_rate counters_mib 1 (init 0 counters_zero None) = 1048576
   \<and> send_rate_mib_s (fst (get_network_info counters_mib 1 (init 0 counters_zero None))) = 1"
  using rate_is_delta_over_floored_dt [of counters_mib 1 "init 0 counters_zero None"]
  by (simp add: init_def counters_zero_def counters_mib_def py_round_def round_half_even_def)

subsection \<open>The baselines\<close>

lemma get_disk_info_events:
  "get_disk_info parts du io now s = (res, evs) \<Longrightarrow>
     (case (res, io) of
        (Inr r, Some c) \<Rightarrow> evs = [Set_prev_disk_io c]
      | _ \<Rightarrow> evs = [])"
  by (auto simp add: get_disk_info_def split: sum.splits option.splits)

text \<open>
  \<^bold>\<open>C4\<close>, as the code has it. A network update replaces the stored network counters and
  the stored timestamp by the new snapshot, whatever the counters read; these two
  assignments are all it does to the monitor, the timestamp last. A disk update has one
  effect at most: when it has read counters and returns, it replaces the stored disk
  counters, whatever they read. It never assigns the timestamp, which it shares with the
  network update, and without counters it leaves the monitor as it was.
\<close>

theorem baseline_replaced_by_update:
  "snd (get_network_info net now s) = [Set_prev_net_io net, Set_prev_sample_ts now]
   \<and> run_events s (snd (get_network_info net now s)) = s\<lparr>prev_net_io := net, prev_sample_ts := now\<rparr>
   \<and> prev_net_io (run_events s (snd (get_network_info net now s))) = net
   \<and> prev_sample_ts (run_events s (snd (get_network_info net now s))) = now
   \<and> (get_disk_info parts du io now s = (res, evs) \<longrightarrow>
        prev_sample_ts (run_events s evs) = prev_sample_ts s
        \<and> prev_net_io (run_events s evs) = prev_net_io s
        \<and> (case (res, io) of
             (Inr r, Some c) \<Rightarrow>
               evs = [Set_prev_disk_io c] \<and> run_events s evs = s\<lparr>prev_disk_io := Some c\<rparr>
           | _ \<Rightarrow> evs = [] \<and> run_events s evs = s))"
proof (intro conjI impI)
  show "snd (get_network_info net now s) = [Set_prev_net_io net, Set_prev_sample_ts now]"
    by (simp add: get_network_info_def)
  then show "run_events s (snd (get_network_info net now s))
               = s\<lparr>prev_net_io := net, prev_sample_ts := now\<rparr>"
    and "prev_net_io (run_events s (snd (get_network_info net now s))) = net"
    and "prev_sample_ts (run_events s (snd (get_network_info net now s))) = now"
    by simp_all
next
  assume d: "get_disk_info parts du io now s = (res, evs)"
  note e = get_disk_info_events[OF d]
  show "prev_sample_ts (run_events s evs) = prev_sample_ts s"
    using e by (auto split: sum.splits option.splits)
  show "prev_net_io (run_events s evs) = prev_net_io s"
    using e by (auto split: sum.splits option.splits)
  show "case (res, io) of
          (Inr r, Some c) \<Rightarrow>
            evs = [Set_prev_disk_io c] \<and> run_events s evs = s\<lparr>prev_disk_io := Some c\<rparr>
        | _ \<Rightarrow> evs = [] \<and> run_events s evs = s"
    using e by (auto split: sum.splits option.splits)
qed

theorem baseline_replaced_by_update_witness:
  "get_disk_info [] no_usage (Some disk_after) 2 monitor0 =
     (Inr \<lparr>partitions = [],
           io_stats = Some \<lparr>read_mib = 0, write_mib = 1, stats_read_rate_mib_s = - 1,
                             stats_write_rate_mib_s = 1 / 2, stats_read_count = 3,
                             stats_write_count = 5\<rparr>\<rparr>,
      [Set_prev_disk_io disk_after])
   \<and> prev_sample_ts (run_events monitor0 [Set_prev_disk_io disk_after]) = prev_sample_ts monitor0
   \<and> run_events monitor0 [Set_prev_disk_io disk_after] = monitor0\<lparr>prev_disk_io := Some disk_after\<rparr>"
proof -
  have d: "get_disk_info [] no_usage (Some disk_after) 2 monitor0 =
     (Inr \<lparr>partitions = [],
           io_stats = Some \<lparr>read_mib = 0, write_mib = 1, stats_read_rate_mib_s = - 1,
                             stats_write_rate_mib_s = 1 / 2, stats_read_count = 3,
                             stats_write_count = 5\<rparr>\<rparr>,
      [Set_prev_disk_io disk_after])"
    by (simp add: example_defs get_disk_info_def read_rate_mib_s_def write_rate_mib_s_def
        dt_def py_round_def round_half_even_def)
  show ?thesis
    using baseline_replaced_by_update [of counters_after 2 monitor0 "[]" no_usage
        "Some disk_after" _ "[Set_prev_disk_io disk_after]"] d
    by simp
qed

text \<open>The claim as the specification states it fails for the disk: after a disk update
  at time 2 the stored timestamp is still that of the construction, 0; and an update that
  reads no counters keeps the old baseline.\<close>

theorem disk_update_replaces_timestamp_counterexample:
  "snd (get_disk_info [] no_usage (Some disk_after) 2 monitor0) = [Set_prev_disk_io disk_after]
   \<and> prev_sample_ts (run_events monitor0 (snd (get_disk_info [] no_usage (Some disk_after) 2 monitor0))) = 0
   \<and> prev_sample_ts (run_events monitor0 (snd (get_disk_info [] no_usage (Some disk_after) 2 monitor0))) \<noteq> 2
   \<and> prev_disk_io (run_events monitor0 (snd (get_disk_info [] no_usage None 2 monitor0))) = Some disk_before"
  by (simp add: example_defs get_disk_info_def)

subsection \<open>The temperature cache\<close>

lemmas temps_defs = float_45_def probe_reading_def probe_silent_def probe_timeout_def
  monitor_temps_def

lemma probe1: "get_temperature_info float_45 probe_reading 100 monitor_temps =
   (Inr (Some \<lparr>cpu_temp_c = 91 / 2\<rparr>),
    [Subprocess_run, Set_last_temp (Some \<lparr>cpu_temp_c = 91 / 2\<rparr>), Set_last_temp_ts 100])"
  by (simp add: temps_defs example_defs get_temperature_info_def parse_line_def strip_def is_space_def Let_def)

lemma probe2: "get_temperature_info float_45 probe_silent 100 monitor_temps =
   (Inr None, [Subprocess_run, Set_last_temp None, Set_last_temp_ts 100])"
  by (simp add: temps_defs example_defs get_temperature_info_def parse_line_def strip_def is_space_def Let_def)

text \<open>
  \<^bold>\<open>C2\<close>, as the code has it. When the probe is run and fails or yields no value, the call
  returns \<open>None\<close>, and \<open>None\<close> is never served from the cache: every later call, at a clock
  reading that is not earlier, runs the probe again, also within the refresh interval. A
  timeout, a non-zero exit status and a missing binary leave the cached value and its
  timestamp as they were; only output with exit status 0 that holds no reading stores
  \<open>None\<close> with the current timestamp.
\<close>

theorem unavailable_is_not_cached:
  assumes "get_temperature_info f run now s = (Inr None, evs)"
    and "Subprocess_run \<in> set evs"
    and "now \<le> now'"
  shows "Subprocess_run \<in> set (snd (get_temperature_info f run' now' (run_events s evs)))
    \<and> (run_events s evs = s
        \<or> last_temp (run_events s evs) = None \<and> last_temp_ts (run_events s evs) = now)
    \<and> ((case run of Inl e \<Rightarrow> True | Inr result \<Rightarrow> returncode result \<noteq> 0) \<longrightarrow>
          evs = [Subprocess_run] \<and> run_events s evs = s)"
proof -
  from assms(1,2) have en: "enable_temps s"
    by (auto simp add: get_temperature_info_def split: if_splits)
  from assms(1,2) have stale: "\<not> (now - last_temp_ts s < temp_refresh_seconds s \<and> last_temp s \<noteq> None)"
    by (auto simp add: get_temperature_info_def split: if_splits)
  from assms(1,2) en stale
  consider (fail) "evs = [Subprocess_run]" "(case run of Inl e \<Rightarrow> True | Inr result \<Rightarrow> returncode result \<noteq> 0)"
    | (silent) "evs = [Subprocess_run, Set_last_temp None, Set_last_temp_ts now]" "\<exists>result. run = Inr result \<and> returncode result = 0"
    by (auto simp add: get_temperature_info_def Let_def split: if_splits sum.splits)
  then show ?thesis
  proof cases
    case fail
    then have same: "run_events s evs = s" by simp
    have "\<not> (now' - last_temp_ts s < temp_refresh_seconds s \<and> last_temp s \<noteq> None)"
      using stale assms(3) by auto
    then have "Subprocess_run \<in> set (snd (get_temperature_info f run' now' s))"
      using en by (auto simp add: get_temperature_info_def Let_def split: sum.splits)
    then show ?thesis using same fail by simp
  next
    case silent
    then have l: "last_temp (run_events s evs) = None" "last_temp_ts (run_events s evs) = now"
      "enable_temps (run_events s evs)"
      using en by simp_all
    then have "Subprocess_run \<in> set (snd (get_temperature_info f run' now' (run_events s evs)))"
      by (auto simp add: get_temperature_info_def Let_def split: sum.splits)
    then show ?thesis using l silent by auto
  qed
qed


lemma probe3:
  "get_temperature_info float_45 probe_timeout 100 monitor_temps = (Inr None, [Subprocess_run])"
  by (simp add: temps_defs example_defs get_temperature_info_def)

theorem unavailable_is_not_cached_witness:
  "get_temperature_info float_45 probe_silent 100 monitor_temps
     = (Inr None, [Subprocess_run, Set_last_temp None, Set_last_temp_ts 100])
   \<and> Subprocess_run \<in> set [Subprocess_run, Set_last_temp None, Set_last_temp_ts 100]
   \<and> (100::rat) \<le> 101
   \<and> Subprocess_run \<in> set (snd (get_temperature_info float_45 probe_reading 101
         (run_events monitor_temps [Subprocess_run, Set_last_temp None, Set_last_temp_ts 100])))
   \<and> get_temperature_info float_45 probe_timeout 100 monitor_temps = (Inr None, [Subprocess_run])
   \<and> Subprocess_run \<in> set [Subprocess_run]
   \<and> (case probe_timeout of Inl e \<Rightarrow> True | Inr result \<Rightarrow> returncode result \<noteq> 0)
   \<and> Subprocess_run \<in> set (snd (get_temperature_info float_45 probe_reading 101
         (run_events monitor_temps [Subprocess_run])))
   \<and> run_events monitor_temps [Subprocess_run] = monitor_temps"
proof -
  have a: "Subprocess_run \<in> set [Subprocess_run, Set_last_temp None, Set_last_temp_ts 100]"
    and a': "Subprocess_run \<in> set [Subprocess_run]"
    by simp_all
  have b: "(100::rat) \<le> 101" by simp
  have c: "case probe_timeout of Inl e \<Rightarrow> True | Inr result \<Rightarrow> returncode result \<noteq> 0"
    by (simp add: probe_timeout_def)
  from unavailable_is_not_cached [OF probe2 a b, of probe_reading]
    unavailable_is_not_cached [OF probe3 a' b, of probe_reading] probe2 probe3 a a' b c
  show ?thesis by blast
qed

text \<open>The claim as the specification states it fails: after a probe that times out at
  time 100 the stored timestamp is still 0, and the call at time 101, inside the interval
  of 5 seconds, runs the probe again; so does the call after a probe that reported no
  reading, although its timestamp was stored.\<close>

theorem failed_probe_is_cached_counterexample:
  "get_temperature_info float_45 probe_timeout 100 monitor_temps = (Inr None, [Subprocess_run])
   \<and> last_temp_ts (run_events monitor_temps [Subprocess_run]) = 0
   \<and> 101 - 100 < temp_refresh_seconds (run_events monitor_temps [Subprocess_run])
   \<and> get_temperature_info float_45 probe_timeout 101 (run_events monitor_temps [Subprocess_run])
       = (Inr None, [Subprocess_run])
   \<and> get_temperature_info float_45 probe_silent 100 monitor_temps
       = (Inr None, [Subprocess_run, Set_last_temp None, Set_last_temp_ts 100])
   \<and> get_temperature_info float_45 probe_timeout 101
         (run_events monitor_temps [Subprocess_run, Set_last_temp None, Set_last_temp_ts 100])
       = (Inr None, [Subprocess_run])"
  by (simp add: temps_defs example_defs get_temperature_info_def parse_line_def strip_def
      is_space_def Let_def)

text \<open>
  \<^bold>\<open>C5\<close>, as the code has it. With a positive refresh interval, when a call returns a
  reading, a second call at the same clock reading returns it without running the probe,
  so the two calls run the probe at most once in total. With temperatures enabled, a
  call made when the refresh interval has elapsed since the stored timestamp runs the
  probe, a call made before that with a reading in the cache returns the reading
  without running it, and a call made with no reading in the cache runs the probe.
\<close>

theorem temperature_cache_refresh:
  "(0 < temp_refresh_seconds s \<and> get_temperature_info f run now s = (Inr (Some t), evs) \<longrightarrow>
      get_temperature_info f run' now (run_events s evs) = (Inr (Some t), [])
      \<and> count_list (evs @ snd (get_temperature_info f run' now (run_events s evs))) Subprocess_run
          \<le> 1)
   \<and> (enable_temps s \<and> temp_refresh_seconds s \<le> now - last_temp_ts s \<longrightarrow>
        Subprocess_run \<in> set (snd (get_temperature_info f run now s)))
   \<and> (enable_temps s \<and> now - last_temp_ts s < temp_refresh_seconds s \<and> last_temp s \<noteq> None \<longrightarrow>
        get_temperature_info f run now s = (Inr (last_temp s), []))
   \<and> (enable_temps s \<and> last_temp s = None \<longrightarrow>
        Subprocess_run \<in> set (snd (get_temperature_info f run now s)))"
proof (intro conjI impI)
  assume a: "0 < temp_refresh_seconds s \<and> get_temperature_info f run now s = (Inr (Some t), evs)"
  then have en: "enable_temps s"
    by (auto simp add: get_temperature_info_def split: if_splits)
  from a en consider
      (hit) "evs = []" "now - last_temp_ts s < temp_refresh_seconds s" "last_temp s = Some t"
    | (probed) "evs = [Subprocess_run, Set_last_temp (Some t), Set_last_temp_ts now]"
    by (auto simp add: get_temperature_info_def Let_def split: if_splits sum.splits)
  then have rc: "get_temperature_info f run' now (run_events s evs) = (Inr (Some t), [])
      \<and> count_list evs Subprocess_run \<le> 1"
  proof cases
    case hit
    then show ?thesis using en by (simp add: get_temperature_info_def)
  next
    case probed
    then show ?thesis using en a by (simp add: get_temperature_info_def)
  qed
  then have r: "get_temperature_info f run' now (run_events s evs) = (Inr (Some t), [])"
    and c: "count_list evs Subprocess_run \<le> 1"
    by simp_all
  show "get_temperature_info f run' now (run_events s evs) = (Inr (Some t), [])" by (rule r)
  show "count_list (evs @ snd (get_temperature_info f run' now (run_events s evs))) Subprocess_run \<le> 1"
    using c by (simp add: r)
next
  assume "enable_temps s \<and> temp_refresh_seconds s \<le> now - last_temp_ts s"
  then show "Subprocess_run \<in> set (snd (get_temperature_info f run now s))"
    by (auto simp add: get_temperature_info_def Let_def split: sum.splits)
next
  assume "enable_temps s \<and> now - last_temp_ts s < temp_refresh_seconds s \<and> last_temp s \<noteq> None"
  then show "get_temperature_info f run now s = (Inr (last_temp s), [])"
    by (simp add: get_temperature_info_def)
next
  assume "enable_temps s \<and> last_temp s = None"
  then show "Subprocess_run \<in> set (snd (get_temperature_info f run now s))"
    by (auto simp add: get_temperature_info_def Let_def split: sum.splits)
qed

theorem temperature_cache_refresh_witness:
  "0 < temp_refresh_seconds monitor_temps
   \<and> get_temperature_info float_45 probe_reading 100 monitor_temps
       = (Inr (Some \<lparr>cpu_temp_c = 91 / 2\<rparr>),
          [Subprocess_run, Set_last_temp (Some \<lparr>cpu_temp_c = 91 / 2\<rparr>), Set_last_temp_ts 100])
   \<and> get_temperature_info float_45 probe_timeout 100
        (run_events monitor_temps
          [Subprocess_run, Set_last_temp (Some \<lparr>cpu_temp_c = 91 / 2\<rparr>), Set_last_temp_ts 100])
       = (Inr (Some \<lparr>cpu_temp_c = 91 / 2\<rparr>), [])
   \<and> enable_temps monitor_temps
   \<and> temp_refresh_seconds monitor_temps \<le> 100 - last_temp_ts monitor_temps
   \<and> last_temp monitor_temps = None
   \<and> Subprocess_run \<in> set (snd (get_temperature_info float_45 probe_reading 100 monitor_temps))
   \<and> get_temperature_info float_45 probe_timeout 103
        (monitor_temps\<lparr>last_temp := Some \<lparr>cpu_temp_c = 91 / 2\<rparr>, last_temp_ts := 100\<rparr>)
       = (Inr (Some \<lparr>cpu_temp_c = 91 / 2\<rparr>), [])
   \<and> Subprocess_run \<in> set (snd (get_temperature_info float_45 probe_timeout 106
        (monitor_temps\<lparr>last_temp := Some \<lparr>cpu_temp_c = 91 / 2\<rparr>, last_temp_ts := 100\<rparr>)))"
proof -
  let ?s1 = "monitor_temps\<lparr>last_temp := Some \<lparr>cpu_temp_c = 91 / 2\<rparr>, last_temp_ts := 100\<rparr>"
  have h: "0 < temp_refresh_seconds monitor_temps" "enable_temps monitor_temps"
    "temp_refresh_seconds monitor_temps \<le> 100 - last_temp_ts monitor_temps"
    "last_temp monitor_temps = None"
    by (simp_all add: temps_defs example_defs)
  have first: "get_temperature_info float_45 probe_timeout 100
        (run_events monitor_temps
          [Subprocess_run, Set_last_temp (Some \<lparr>cpu_temp_c = 91 / 2\<rparr>), Set_last_temp_ts 100])
       = (Inr (Some \<lparr>cpu_temp_c = 91 / 2\<rparr>), [])
     \<and> Subprocess_run \<in> set (snd (get_temperature_info float_45 probe_reading 100 monitor_temps))"
    using temperature_cache_refresh [of monitor_temps float_45 probe_reading 100
      "\<lparr>cpu_temp_c = 91 / 2\<rparr>"
      "[Subprocess_run, Set_last_temp (Some \<lparr>cpu_temp_c = 91 / 2\<rparr>), Set_last_temp_ts 100]"
      probe_timeout] probe1 h
    by blast
  have h1: "enable_temps ?s1" "103 - last_temp_ts ?s1 < temp_refresh_seconds ?s1"
    "last_temp ?s1 = Some \<lparr>cpu_temp_c = 91 / 2\<rparr>"
    "temp_refresh_seconds ?s1 \<le> 106 - last_temp_ts ?s1"
    by (simp_all add: temps_defs example_defs)
  have hit: "get_temperature_info float_45 probe_timeout 103 ?s1
               = (Inr (Some \<lparr>cpu_temp_c = 91 / 2\<rparr>), [])"
    using temperature_cache_refresh [of ?s1 float_45 probe_timeout 103] h1 by simp
  have again: "Subprocess_run \<in> set (snd (get_temperature_info float_45 probe_timeout 106 ?s1))"
    using temperature_cache_refresh [of ?s1 float_45 probe_timeout 106] h1 by blast
  show ?thesis using first hit again probe1 h by simp
qed

text \<open>The claim as the specification states it fails when the probe yields no reading: two
  calls at time 100 with a probe that times out run it twice.\<close>

theorem one_refresh_per_window_counterexample:
  "enable_temps monitor_temps
   \<and> get_temperature_info float_45 probe_timeout 100 monitor_temps = (Inr None, [Subprocess_run])
   \<and> get_temperature_info float_45 probe_timeout 100 (run_events monitor_temps [Subprocess_run])
       = (Inr None, [Subprocess_run])
   \<and> count_list ([Subprocess_run] @ [Subprocess_run]) Subprocess_run = 2"
  by (simp add: temps_defs example_defs get_temperature_info_def)

subsection \<open>Ranking the processes\<close>

lemma only_raises_Cons:
  "only_raises h (r # rs) = ((case r of Inl e \<Rightarrow> e \<in> set h | Inr v \<Rightarrow> True) \<and> only_raises h rs)"
  by (simp add: only_raises_def)

lemmas table_defs = table_def throwaway_reads_def record_launchd_def record_python_def
  record_unreadable_def record_zsh_def

lemma collect_table:
  "collect_processes table = Inr [record_launchd, record_python, record_unreadable, record_zsh]"
  by (simp add: table_defs process_entry_def py_round_def round_half_even_def)

lemma prime_loop_reads:
  "prime_loop throwaway_reads = (Inr (), [Cpu_percent_read, Cpu_percent_read])"
  by (simp add: table_defs)

lemma ranked_by_cpu:
  "sort_reverse cpu_percent [record_launchd, record_python, record_unreadable, record_zsh]
     = [record_python, record_launchd, record_zsh, record_unreadable]"
  by (simp add: sort_reverse_def table_defs)

lemma top_cpu:
  "get_top_processes throwaway_reads table 10 10 ''cpu'' monitor0 =
     (Inr [record_python, record_launchd, record_zsh, record_unreadable],
      [Cpu_percent_read, Cpu_percent_read, Sleep (1 / 5), Set_proc_prime_ts 10])"
  by (simp add: get_top_processes_def prime_def prime_loop_reads collect_table ranked_by_cpu
      slice_to_def example_defs)

lemma top_bogus:
  "get_top_processes throwaway_reads table 10 10 ''bogus'' monitor0 =
     (Inr [record_python, record_launchd, record_zsh, record_unreadable], [])"
  by (simp add: get_top_processes_def prime_def prime_loop_reads collect_table ranked_by_cpu
      slice_to_def example_defs)

lemma collect_processes_Inr:
  "collect_processes ps = Inr rs \<Longrightarrow> rs = map process_entry (yielded ps)"
proof (induction ps arbitrary: rs)
  case Nil
  then show ?case by simp
next
  case (Cons p ps)
  then show ?case
    by (cases p) (auto split: sum.splits if_splits)
qed

lemma collect_processes_total:
  "only_raises psutil_errors ps \<Longrightarrow> \<exists>rs. collect_processes ps = Inr rs"
proof (induction ps)
  case Nil
  then show ?case by simp
next
  case (Cons p ps)
  then obtain rs where "collect_processes ps = Inr rs" by (auto simp add: only_raises_Cons)
  then show ?case using Cons.prems
    by (cases p) (auto simp add: psutil_errors_def only_raises_Cons)
qed

lemma prime_loop_total:
  "only_raises psutil_errors rs \<Longrightarrow> fst (prime_loop rs) = Inr ()"
proof (induction rs)
  case Nil
  then show ?case by simp
next
  case (Cons r rs)
  then have "fst (prime_loop rs) = Inr ()" by (auto simp add: only_raises_Cons)
  then show ?case using Cons.prems
    by (cases r) (auto simp add: psutil_errors_def only_raises_Cons split: prod.splits)
qed

lemma prime_total:
  "only_raises psutil_errors rs \<Longrightarrow> fst (prime rs now sort_by s) = Inr ()"
  using prime_loop_total[of rs]
  by (auto simp add: prime_def split: prod.splits sum.splits)

lemma pid_process_entry: "map pid (map process_entry infos) = map info_pid infos"
  by (simp add: process_entry_def Let_def)

lemma get_top_processes_Inr:
  "fst (get_top_processes reads ps now num sort_by s) = Inr top_list \<Longrightarrow>
     top_list = slice_to num
       (sort_reverse (if sort_by = ''memory'' then memory_percent else cpu_percent)
          (map process_entry (yielded ps)))"
  by (auto simp add: get_top_processes_def Let_def
      split: prod.splits sum.splits if_splits dest: collect_processes_Inr)

lemma slice_to_prefix: "prefix (slice_to num xs) xs"
  by (simp add: slice_to_def take_is_prefix)

lemma sorted_sort_reverse: "sorted_wrt (\<lambda>a b. key b \<le> key a) (sort_reverse key xs)"
proof -
  have "sorted (map (\<lambda>x. - key x) (sort_key (\<lambda>x. - key x) xs))" by (rule sorted_sort_key)
  then show ?thesis by (simp add: sort_reverse_def sorted_map)
qed

lemma sort_reverse_stable:
  "filter (\<lambda>p. key p = c) (sort_reverse key xs) = filter (\<lambda>p. key p = c) xs"
  using sort_key_stable[of "\<lambda>x. - key x" "- c" xs] by (simp add: sort_reverse_def)

lemma distinct_pid_sort_reverse:
  "distinct (map pid xs) \<Longrightarrow> distinct (map pid (sort_reverse key xs))"
  by (simp add: sort_reverse_def distinct_map)

text \<open>
  \<^bold>\<open>C9\<close>, as the code has it. When \<open>get_top_processes\<close> ranks by CPU and returns, the
  records are in descending order of \<open>cpu_percent\<close>; for \<open>num\<close> of at least zero there are
  at most \<open>num\<close> of them, and for a negative \<open>num\<close> all but the last \<open>-num\<close>; no
  process identifier occurs twice when the enumeration yields none twice; and the records
  with one and the same CPU usage are the first ones of the enumeration with that usage,
  in its order. The call returns whenever the processes raise nothing else than the three
  exceptions of \<open>psutil\<close>.
\<close>

theorem top_by_cpu_sorted:
  "(fst (get_top_processes reads ps now num ''cpu'' s) = Inr top_list \<longrightarrow>
      sorted_wrt (\<lambda>a b. cpu_percent b \<le> cpu_percent a) top_list
      \<and> (0 \<le> num \<longrightarrow> int (length top_list) \<le> num)
      \<and> (num < 0 \<longrightarrow>
            top_list = take (length (yielded ps) - nat (- num))
                         (sort_reverse cpu_percent (map process_entry (yielded ps))))
      \<and> (distinct (map info_pid (yielded ps)) \<longrightarrow> distinct (map pid top_list))
      \<and> (\<forall>c. prefix (filter (\<lambda>p. cpu_percent p = c) top_list)
                (filter (\<lambda>p. cpu_percent p = c) (map process_entry (yielded ps)))))
   \<and> (only_raises psutil_errors reads \<and> only_raises psutil_errors ps \<longrightarrow>
        (\<exists>top_list. fst (get_top_processes reads ps now num ''cpu'' s) = Inr top_list))"
proof (intro conjI impI allI)
  assume r: "fst (get_top_processes reads ps now num ''cpu'' s) = Inr top_list"
  let ?all = "sort_reverse cpu_percent (map process_entry (yielded ps))"
  have t: "top_list = slice_to num ?all"
    using get_top_processes_Inr[OF r] by simp
  have p: "prefix top_list ?all" unfolding t by (rule slice_to_prefix)
  have "sorted_wrt (\<lambda>a b. cpu_percent b \<le> cpu_percent a) ?all" by (rule sorted_sort_reverse)
  then show "sorted_wrt (\<lambda>a b. cpu_percent b \<le> cpu_percent a) top_list"
    unfolding t by (simp add: slice_to_def sorted_wrt_take)
  {
    assume "0 \<le> num"
    then show "int (length top_list) \<le> num" unfolding t by (simp add: slice_to_def)
  }
  {
    assume "num < 0"
    then show "top_list = take (length (yielded ps) - nat (- num)) ?all"
      unfolding t by (simp add: slice_to_def sort_reverse_def)
  }
  {
    assume "distinct (map info_pid (yielded ps))"
    then have "distinct (map pid (map process_entry (yielded ps)))"
      by (simp only: pid_process_entry)
    then have "distinct (map pid ?all)" by (rule distinct_pid_sort_reverse)
    then have "distinct (take n (map pid ?all))" for n by (rule distinct_take)
    then show "distinct (map pid top_list)" unfolding t by (simp add: slice_to_def take_map)
  }
  {
    fix c
    have "prefix (filter (\<lambda>p. cpu_percent p = c) top_list)
            (filter (\<lambda>p. cpu_percent p = c) ?all)"
      using p by (rule filter_mono_prefix)
    then show "prefix (filter (\<lambda>p. cpu_percent p = c) top_list)
            (filter (\<lambda>p. cpu_percent p = c) (map process_entry (yielded ps)))"
      by (simp only: sort_reverse_stable)
  }
next
  assume a: "only_raises psutil_errors reads \<and> only_raises psutil_errors ps"
  then have "fst (prime reads now ''cpu'' s) = Inr ()" by (intro prime_total) auto
  moreover from a obtain rs where "collect_processes ps = Inr rs"
    using collect_processes_total[of ps] by auto
  ultimately show "\<exists>top_list. fst (get_top_processes reads ps now num ''cpu'' s) = Inr top_list"
    by (auto simp add: get_top_processes_def Let_def split: prod.splits sum.splits)
qed


lemma top_cpu_2:
  "get_top_processes throwaway_reads table 10 2 ''cpu'' monitor0 =
     (Inr [record_python, record_launchd],
      [Cpu_percent_read, Cpu_percent_read, Sleep (1 / 5), Set_proc_prime_ts 10])"
  by (simp add: get_top_processes_def prime_def prime_loop_reads collect_table ranked_by_cpu
      slice_to_def example_defs)

lemma top_cpu_all_but_one:
  "get_top_processes throwaway_reads table 10 (- 1) ''cpu'' monitor0 =
     (Inr [record_python, record_launchd, record_zsh],
      [Cpu_percent_read, Cpu_percent_read, Sleep (1 / 5), Set_proc_prime_ts 10])"
  by (simp add: get_top_processes_def prime_def prime_loop_reads collect_table ranked_by_cpu
      slice_to_def example_defs)

theorem top_by_cpu_sorted_witness:
  "fst (get_top_processes throwaway_reads table 10 2 ''cpu'' monitor0)
     = Inr [record_python, record_launchd]
   \<and> (0::int) \<le> 2
   \<and> distinct (map info_pid (yielded table))
   \<and> only_raises psutil_errors throwaway_reads
   \<and> only_raises psutil_errors table
   \<and> sorted_wrt (\<lambda>a b. cpu_percent b \<le> cpu_percent a) [record_python, record_launchd]
   \<and> int (length [record_python, record_launchd]) \<le> 2
   \<and> distinct (map pid [record_python, record_launchd])
   \<and> fst (get_top_processes throwaway_reads table 10 (- 1) ''cpu'' monitor0)
     = Inr [record_python, record_launchd, record_zsh]
   \<and> (- 1 :: int) < 0
   \<and> [record_python, record_launchd, record_zsh]
       = take (length (yielded table) - nat (- (- 1)))
           (sort_reverse cpu_percent (map process_entry (yielded table)))"
proof -
  have h: "fst (get_top_processes throwaway_reads table 10 2 ''cpu'' monitor0)
     = Inr [record_python, record_launchd]"
    by (simp add: top_cpu_2)
  have h': "fst (get_top_processes throwaway_reads table 10 (- 1) ''cpu'' monitor0)
     = Inr [record_python, record_launchd, record_zsh]"
    by (simp add: top_cpu_all_but_one)
  have d: "distinct (map info_pid (yielded table))" by (simp add: table_def)
  have o: "only_raises psutil_errors throwaway_reads" "only_raises psutil_errors table"
    by (simp_all add: only_raises_def psutil_errors_def table_defs)
  have n: "(- 1 :: int) < 0" by simp
  from top_by_cpu_sorted [of throwaway_reads table 10 2 monitor0 "[record_python, record_launchd]"]
    h d o
  have two: "sorted_wrt (\<lambda>a b. cpu_percent b \<le> cpu_percent a) [record_python, record_launchd]
     \<and> int (length [record_python, record_launchd]) \<le> 2
     \<and> distinct (map pid [record_python, record_launchd])"
    by simp
  from top_by_cpu_sorted [of throwaway_reads table 10 "- 1" monitor0
      "[record_python, record_launchd, record_zsh]"] h' n
  have all_but_one: "[record_python, record_launchd, record_zsh]
       = take (length (yielded table) - nat (- (- 1)))
           (sort_reverse cpu_percent (map process_entry (yielded table)))"
    by blast
  have z: "(0::int) \<le> 2" by simp
  show ?thesis using h h' d o n z two all_but_one by blast
qed

text \<open>The claim as the specification states it fails for a negative \<open>num\<close>: the slice
  \<open>processes[:-1]\<close> drops the last record only, and three records are more than \<open>-1\<close>.\<close>

theorem top_length_at_most_n_counterexample:
  "fst (get_top_processes throwaway_reads table 10 (- 1) ''cpu'' monitor0)
     = Inr [record_python, record_launchd, record_zsh]
   \<and> \<not> int (length [record_python, record_launchd, record_zsh]) \<le> - 1"
  by (simp add: top_cpu_all_but_one)

text \<open>
  \<^bold>\<open>C6.\<close> An unrecognized sort key is to behave as \<open>'cpu'\<close>. Ten seconds after the last
  priming, the key \<open>'bogus'\<close> gives the ranking of \<open>'cpu'\<close> on the same table, but none of
  its effects: no throwaway read, no delay, and the priming timestamp stays at 0 where
  \<open>'cpu'\<close> sets it to 10. The test for priming compares the key with \<open>'cpu'\<close> before the
  key is defaulted.
\<close>

theorem unrecognized_key_skips_priming:
  "get_top_processes throwaway_reads table 10 10 ''bogus'' monitor0 =
     (Inr [record_python, record_launchd, record_zsh, record_unreadable], [])
   \<and> get_top_processes throwaway_reads table 10 10 ''cpu'' monitor0 =
     (Inr [record_python, record_launchd, record_zsh, record_unreadable],
      [Cpu_percent_read, Cpu_percent_read, Sleep (1 / 5), Set_proc_prime_ts 10])
   \<and> proc_prime_ts (run_events monitor0
        (snd (get_top_processes throwaway_reads table 10 10 ''bogus'' monitor0))) = 0
   \<and> proc_prime_ts (run_events monitor0
        (snd (get_top_processes throwaway_reads table 10 10 ''cpu'' monitor0))) = 10"
  by (simp add: top_cpu top_bogus) (simp add: example_defs)

text \<open>
  \<^bold>\<open>C10.\<close> A call that ranks by memory has no effect at all, whatever the clock and the
  priming timestamp are: it issues no throwaway read and no delay and leaves the priming
  timestamp, and the whole monitor, as it was. Its result is the collected records ranked
  by \<open>memory_percent\<close>, each with the CPU usage that the enumeration read, or 0 if it
  read none.
\<close>

theorem memory_ranking_skips_priming:
  "snd (get_top_processes reads ps now num ''memory'' s) = []
   \<and> run_events s (snd (get_top_processes reads ps now num ''memory'' s)) = s
   \<and> proc_prime_ts (run_events s (snd (get_top_processes reads ps now num ''memory'' s)))
       = proc_prime_ts s
   \<and> Cpu_percent_read \<notin> set (snd (get_top_processes reads ps now num ''memory'' s))
   \<and> Sleep d \<notin> set (snd (get_top_processes reads ps now num ''memory'' s))
   \<and> fst (get_top_processes reads ps now num ''memory'' s) =
       (case collect_processes ps of
          Inl e \<Rightarrow> Inl e
        | Inr processes \<Rightarrow> Inr (slice_to num (sort_reverse memory_percent processes)))
   \<and> cpu_percent (process_entry info) = (case info_cpu_percent info of None \<Rightarrow> 0 | Some v \<Rightarrow> v)"
proof -
  have e: "snd (get_top_processes reads ps now num ''memory'' s) = []"
    by (simp add: get_top_processes_def prime_def Let_def split: sum.splits)
  have r: "fst (get_top_processes reads ps now num ''memory'' s) =
       (case collect_processes ps of
          Inl e \<Rightarrow> Inl e
        | Inr processes \<Rightarrow> Inr (slice_to num (sort_reverse memory_percent processes)))"
    by (simp add: get_top_processes_def prime_def Let_def split: sum.splits)
  show ?thesis by (simp add: e r) (simp add: process_entry_def Let_def)
qed

subsection \<open>Recoverable conditions\<close>

lemma partition_loop_skips:
  "only_raises [PermissionError, FileNotFoundError] (map (\<lambda>p. du (mountpoint p)) ps) \<Longrightarrow>
     \<exists>infos. partition_loop du ps = Inr infos
       \<and> map info_mountpoint infos = filter (\<lambda>m. \<not> isl (du m)) (map mountpoint ps)"
proof (induction ps)
  case Nil
  then show ?case by simp
next
  case (Cons p ps)
  then obtain infos where i: "partition_loop du ps = Inr infos"
    "map info_mountpoint infos = filter (\<lambda>m. \<not> isl (du m)) (map mountpoint ps)"
    by (auto simp add: only_raises_Cons)
  show ?case
  proof (cases "du (mountpoint p)")
    case (Inl e)
    then show ?thesis using i Cons.prems by (auto simp add: only_raises_Cons)
  next
    case (Inr u)
    then show ?thesis using i by (simp add: partition_entry_def)
  qed
qed

lemma get_disk_info_recovers:
  assumes "only_raises [PermissionError, FileNotFoundError] (map (\<lambda>p. du (mountpoint p)) ps)"
    and "io \<noteq> None \<longrightarrow> prev_disk_io s \<noteq> None"
  shows "\<exists>d ev. get_disk_info ps du io now s = (Inr d, ev)
     \<and> map info_mountpoint (partitions d) = filter (\<lambda>m. \<not> isl (du m)) (map mountpoint ps)
     \<and> (io = None \<longrightarrow> io_stats d = None)
     \<and> set ev \<subseteq> range Set_prev_disk_io"
proof -
  from partition_loop_skips[OF assms(1)] obtain infos where i: "partition_loop du ps = Inr infos"
    "map info_mountpoint infos = filter (\<lambda>m. \<not> isl (du m)) (map mountpoint ps)"
    by blast
  show ?thesis
  proof (cases io)
    case None
    then show ?thesis using i by (simp add: get_disk_info_def)
  next
    case (Some c)
    then obtain prev where "prev_disk_io s = Some prev" using assms(2) by auto
    then show ?thesis using i Some by (simp add: get_disk_info_def)
  qed
qed

lemma get_temperature_info_recovers:
  assumes "only_raises [TimeoutExpired, CalledProcessError, FileNotFoundError] [run]"
  shows "\<exists>t ev. get_temperature_info f run now s = (Inr t, ev)
     \<and> (failed run \<and> Subprocess_run \<in> set ev \<longrightarrow> t = None)
     \<and> set ev \<subseteq> {Subprocess_run} \<union> range Set_last_temp \<union> range Set_last_temp_ts"
  using assms
  by (cases run) (auto simp add: get_temperature_info_def failed_def only_raises_def Let_def)

lemma prime_loop_events: "set (snd (prime_loop rs)) \<subseteq> {Cpu_percent_read}"
  by (induction rs) (auto split: sum.splits prod.splits if_splits)

lemma prime_events:
  "set (snd (prime rs now sort_by s)) \<subseteq> {Cpu_percent_read, Sleep (1 / 5), Set_proc_prime_ts now}"
  using prime_loop_events[of rs]
  by (auto simp add: prime_def split: sum.splits prod.splits if_splits)

lemma pids_slice_to: "set (slice_to num xs) \<subseteq> set xs"
  by (auto simp add: slice_to_def dest: in_set_takeD)

lemma get_top_processes_recovers:
  assumes "only_raises psutil_errors reads" and "only_raises psutil_errors ps"
  shows "\<exists>tops ev. get_top_processes reads ps now num sort_by s = (Inr tops, ev)
     \<and> set (map pid tops) \<subseteq> set (map info_pid (yielded ps))
     \<and> Subprocess_run \<notin> set ev"
proof -
  obtain u ev where p: "prime reads now sort_by s = (Inr u, ev)"
    using prime_total[OF assms(1), of now sort_by s] by (cases "prime reads now sort_by s") auto
  have e: "Subprocess_run \<notin> set ev" using prime_events[of reads now sort_by s] p by auto
  obtain rs where c: "collect_processes ps = Inr rs"
    using collect_processes_total[OF assms(2)] by blast
  then have rs: "rs = map process_entry (yielded ps)" by (rule collect_processes_Inr)
  have "set (map pid (slice_to num (sort_reverse key rs))) \<subseteq> set (map info_pid (yielded ps))" for key
  proof -
    have "set (slice_to num (sort_reverse key rs)) \<subseteq> set rs"
      using pids_slice_to[of num "sort_reverse key rs"] by (simp add: sort_reverse_def)
    then have "pid ` set (slice_to num (sort_reverse key rs)) \<subseteq> pid ` set rs" by blast
    then show ?thesis using pid_process_entry[of "yielded ps"] rs by (simp add: image_image process_entry_def Let_def)
  qed
  then show ?thesis using p c e
    by (simp add: get_top_processes_def Let_def)
qed


text \<open>
  \<^bold>\<open>C3.\<close> A report raises nothing when the operating system raises nothing but the
  recoverable conditions: \<open>PermissionError\<close> or \<open>FileNotFoundError\<close> for a partition, a
  timeout or a missing binary for the probe, a vanished, inaccessible or zombie process
  in either loop over the processes (and the disk baseline is there when disk counters
  are). The report then lists exactly the partitions that could be read, has \<open>None\<close> for
  the battery when there is none, \<open>None\<close> for the temperature when the probe was run and
  failed, and only records of processes that the enumeration yielded.
\<close>

theorem report_never_raises:
  assumes du: "only_raises [PermissionError, FileNotFoundError]
                 (map (\<lambda>p. disk_usage os (mountpoint p)) (disk_partitions os))"
    and pr: "only_raises [TimeoutExpired, CalledProcessError, FileNotFoundError] [probe_run os]"
    and rd: "only_raises psutil_errors (priming os)"
    and pi: "only_raises psutil_errors (process_iter os)"
    and base: "disk_io_counters os \<noteq> None \<longrightarrow> prev_disk_io s \<noteq> None"
  shows "\<exists>r. fst (get_json_report f os include_processes top_n sort_by include_battery s) = Inr r
     \<and> map info_mountpoint (partitions (disk r))
         = filter (\<lambda>m. \<not> isl (disk_usage os m)) (map mountpoint (disk_partitions os))
     \<and> (include_battery \<longrightarrow> battery r = Some (get_battery_info (sensors_battery os)))
     \<and> get_battery_info None = None
     \<and> (failed (probe_run os)
          \<and> Subprocess_run \<in> set (snd (get_json_report f os include_processes top_n sort_by
                                            include_battery s))
          \<longrightarrow> temperature r = None)
     \<and> (include_processes \<longrightarrow>
          (\<exists>tops. top_processes r = Some tops
             \<and> set (map pid tops) \<subseteq> set (map info_pid (yielded (process_iter os)))))"
proof -
  obtain d ev1 where d: "get_disk_info (disk_partitions os) (disk_usage os) (disk_io_counters os)
                           (disk_now os) s = (Inr d, ev1)"
    and dm: "map info_mountpoint (partitions d)
         = filter (\<lambda>m. \<not> isl (disk_usage os m)) (map mountpoint (disk_partitions os))"
    and de: "set ev1 \<subseteq> range Set_prev_disk_io"
    using get_disk_info_recovers[OF du base] by blast
  let ?s1 = "run_events s ev1"
  obtain n ev2 where n: "get_network_info (net_io_counters os) (net_now os) ?s1 = (n, ev2)"
    and ne: "ev2 = [Set_prev_net_io (net_io_counters os), Set_prev_sample_ts (net_now os)]"
    by (simp add: get_network_info_def)
  let ?s2 = "run_events ?s1 ev2"
  obtain t ev3 where t: "get_temperature_info f (probe_run os) (temp_now os) ?s2 = (Inr t, ev3)"
    and tn: "failed (probe_run os) \<and> Subprocess_run \<in> set ev3 \<longrightarrow> t = None"
    using get_temperature_info_recovers[OF pr] by blast
  let ?s3 = "run_events ?s2 ev3"
  obtain tops ev4 where p: "get_top_processes (priming os) (process_iter os) (proc_now os)
                              top_n sort_by ?s3 = (Inr tops, ev4)"
    and pp: "set (map pid tops) \<subseteq> set (map info_pid (yielded (process_iter os)))"
    and pe: "Subprocess_run \<notin> set ev4"
    using get_top_processes_recovers[OF rd pi] by blast
  have e12: "Subprocess_run \<notin> set ev1" "Subprocess_run \<notin> set ev2"
    using de ne by auto
  show ?thesis
  proof (cases include_processes)
    case True
    then have "get_json_report f os include_processes top_n sort_by include_battery s =
       (Inr \<lparr>disk = d, network = n, temperature = t,
             battery = (if include_battery then Some (get_battery_info (sensors_battery os))
                        else None),
             top_processes = Some tops\<rparr>, ev1 @ ev2 @ ev3 @ ev4)"
      using d n t p by (simp add: get_json_report_def Let_def)
    then show ?thesis using dm tn pp pe e12 by (auto simp add: get_battery_info_def)
  next
    case False
    then have "get_json_report f os include_processes top_n sort_by include_battery s =
       (Inr \<lparr>disk = d, network = n, temperature = t,
             battery = (if include_battery then Some (get_battery_info (sensors_battery os))
                        else None),
             top_processes = None\<rparr>, ev1 @ ev2 @ ev3)"
      using d n t by (simp add: get_json_report_def Let_def)
    then show ?thesis using dm tn e12 False by (auto simp add: get_battery_info_def)
  qed
qed


lemma report_host:
  "get_json_report float_45 host True 2 ''cpu'' True monitor_temps =
     (Inr \<lparr>disk =
             \<lparr>partitions =
                [\<lparr>info_device = ''/dev/disk1'', info_mountpoint = ''/'', info_fstype = ''apfs'',
                  total_gib = 2, used_gib = 1, free_gib = 1, info_percent = 50\<rparr>],
              io_stats =
                Some \<lparr>read_mib = 0, write_mib = 1, stats_read_rate_mib_s = - 2,
                      stats_write_rate_mib_s = 1, stats_read_count = 3, stats_write_count = 5\<rparr>\<rparr>,
           network =
             \<lparr>bytes_sent_mib = 0, bytes_recv_mib = 1, send_rate_mib_s = - 2, recv_rate_mib_s = 1,
              report_packets_sent = 8, report_packets_recv = 9\<rparr>,
           temperature = None,
           battery = Some None,
           top_processes = Some [record_python, record_launchd]\<rparr>,
      [Set_prev_disk_io disk_after, Set_prev_net_io counters_after, Set_prev_sample_ts 1,
       Subprocess_run, Cpu_percent_read, Cpu_percent_read, Sleep (1 / 5), Set_proc_prime_ts 10])"
proof -
  have d: "get_disk_info (disk_partitions host) (disk_usage host) (disk_io_counters host)
             (disk_now host) monitor_temps =
     (Inr \<lparr>partitions =
                [\<lparr>info_device = ''/dev/disk1'', info_mountpoint = ''/'', info_fstype = ''apfs'',
                  total_gib = 2, used_gib = 1, free_gib = 1, info_percent = 50\<rparr>],
              io_stats =
                Some \<lparr>read_mib = 0, write_mib = 1, stats_read_rate_mib_s = - 2,
                      stats_write_rate_mib_s = 1, stats_read_count = 3, stats_write_count = 5\<rparr>\<rparr>,
      [Set_prev_disk_io disk_after])"
    by (simp add: host_def usage_of_def get_disk_info_def partition_entry_def temps_defs
        example_defs read_rate_mib_s_def write_rate_mib_s_def dt_def py_round_def
        round_half_even_def)
  have n: "get_network_info (net_io_counters host) (net_now host)
             (run_events monitor_temps [Set_prev_disk_io disk_after]) =
     (\<lparr>bytes_sent_mib = 0, bytes_recv_mib = 1, send_rate_mib_s = - 2, recv_rate_mib_s = 1,
              report_packets_sent = 8, report_packets_recv = 9\<rparr>,
      [Set_prev_net_io counters_after, Set_prev_sample_ts 1])"
    by (simp add: host_def get_network_info_def temps_defs example_defs sent_rate_def
        recv_rate_def dt_def py_round_def round_half_even_def)
  have t: "get_temperature_info float_45 (probe_run host) (temp_now host)
             (run_events (run_events monitor_temps [Set_prev_disk_io disk_after])
                [Set_prev_net_io counters_after, Set_prev_sample_ts 1]) =
     (Inr None, [Subprocess_run])"
    by (simp add: host_def get_temperature_info_def temps_defs example_defs)
  have p: "get_top_processes (priming host) (process_iter host) (proc_now host) 2 ''cpu''
             (run_events (run_events (run_events monitor_temps [Set_prev_disk_io disk_after])
                [Set_prev_net_io counters_after, Set_prev_sample_ts 1]) [Subprocess_run]) =
     (Inr [record_python, record_launchd],
      [Cpu_percent_read, Cpu_percent_read, Sleep (1 / 5), Set_proc_prime_ts 10])"
    by (simp add: host_def get_top_processes_def prime_def prime_loop_reads collect_table
        ranked_by_cpu slice_to_def temps_defs example_defs)
  have b: "get_battery_info (sensors_battery host) = None"
    by (simp add: host_def get_battery_info_def)
  show ?thesis
    by (simp only: get_json_report_def d n t p b Let_def prod.case sum.case if_True
        append.simps)
qed

theorem report_never_raises_witness:
  "only_raises [PermissionError, FileNotFoundError]
     (map (\<lambda>p. disk_usage host (mountpoint p)) (disk_partitions host))
   \<and> only_raises [TimeoutExpired, CalledProcessError, FileNotFoundError] [probe_run host]
   \<and> only_raises psutil_errors (priming host)
   \<and> only_raises psutil_errors (process_iter host)
   \<and> prev_disk_io monitor_temps \<noteq> None
   \<and> failed (probe_run host)
   \<and> Subprocess_run \<in> set (snd (get_json_report float_45 host True 2 ''cpu'' True monitor_temps))
   \<and> (\<exists>r. fst (get_json_report float_45 host True 2 ''cpu'' True monitor_temps) = Inr r
         \<and> map info_mountpoint (partitions (disk r)) = [''/'']
         \<and> battery r = Some None
         \<and> temperature r = None
         \<and> (\<exists>tops. top_processes r = Some tops \<and> set (map pid tops) \<subseteq> {1, 2, 3, 4}))"
proof -
  have du: "only_raises [PermissionError, FileNotFoundError]
     (map (\<lambda>p. disk_usage host (mountpoint p)) (disk_partitions host))"
    by (simp add: only_raises_def host_def usage_of_def)
  have pr: "only_raises [TimeoutExpired, CalledProcessError, FileNotFoundError] [probe_run host]"
    by (simp add: only_raises_def host_def probe_timeout_def)
  have rd: "only_raises psutil_errors (priming host)"
    by (simp add: only_raises_def psutil_errors_def host_def table_defs)
  have pi: "only_raises psutil_errors (process_iter host)"
    by (simp add: only_raises_def psutil_errors_def host_def table_defs)
  have base: "prev_disk_io monitor_temps \<noteq> None"
    by (simp add: temps_defs example_defs)
  then have base': "disk_io_counters host \<noteq> None \<longrightarrow> prev_disk_io monitor_temps \<noteq> None"
    by simp
  have fl: "failed (probe_run host)" by (simp add: failed_def host_def probe_timeout_def)
  have ev: "Subprocess_run \<in> set (snd (get_json_report float_45 host True 2 ''cpu'' True monitor_temps))"
    by (simp add: report_host)
  have m: "filter (\<lambda>m. \<not> isl (disk_usage host m)) (map mountpoint (disk_partitions host)) = [''/'']"
    by (simp add: host_def usage_of_def)
  have y: "set (map info_pid (yielded (process_iter host))) = {1, 2, 3, 4}"
    by (auto simp add: host_def table_def)
  have b: "get_battery_info (sensors_battery host) = None"
    by (simp add: host_def get_battery_info_def)
  from report_never_raises [OF du pr rd pi base', of float_45 True 2 "''cpu''" True]
  show ?thesis using du pr rd pi base fl ev m y b by auto
qed

end
